theory Spec2Isabelle
  imports Complex_Main "HOL-Library.Word"
begin

section \<open>JavaScript values\<close>

text \<open>
  The light functions and the image functions receive untyped JavaScript values.  The
  values the code inspects are modelled by a datatype: the primitives, plain objects as
  association lists of fields, and arrays.  A number carries a real: the light functions
  never compute with the numbers they are given, they only pass them on, so the rounding
  of IEEE doubles plays no part there (NaN and the infinities are not represented).
\<close>

datatype jsval =
    JUndefined
  | JNull
  | JBool bool
  | JNum real
  | JStr string
  | JObj "(string \<times> jsval) list"
  | JArr "jsval list"

datatype error = TypeError | IndexSizeError

text \<open>The \<^verbatim>\<open>typeof\<close> operator.\<close>

fun typeof :: "jsval \<Rightarrow> string" where
  "typeof JUndefined = ''undefined''"
| "typeof JNull = ''object''"
| "typeof (JBool b) = ''boolean''"
| "typeof (JNum n) = ''number''"
| "typeof (JStr s) = ''string''"
| "typeof (JObj fs) = ''object''"
| "typeof (JArr xs) = ''object''"

text \<open>
  Reading \<^verbatim>\<open>a[i]\<close> from an array or from \<^verbatim>\<open>arguments\<close>: an index outside the array
  (negative, or past the end) reads \<^verbatim>\<open>undefined\<close>.
\<close>

definition js_index :: "jsval list \<Rightarrow> int \<Rightarrow> jsval" where
  "js_index xs i = (if 0 \<le> i \<and> i < int (length xs) then xs ! nat i else JUndefined)"

text \<open>
  Reading the property \<^verbatim>\<open>v.name\<close>.  On \<^verbatim>\<open>undefined\<close> and \<^verbatim>\<open>null\<close> the read throws a
  TypeError.  On a plain object it is the field, or \<^verbatim>\<open>undefined\<close> when the object has no
  such field.  On the other values it is a lookup on the prototype; the model is used for
  the names \<^verbatim>\<open>x\<close>, \<^verbatim>\<open>y\<close> and \<^verbatim>\<open>z\<close> only, which no built-in prototype defines, so the read
  is \<^verbatim>\<open>undefined\<close>.
\<close>

fun getProp :: "jsval \<Rightarrow> string \<Rightarrow> error + jsval" where
  "getProp JUndefined name = Inl TypeError"
| "getProp JNull name = Inl TypeError"
| "getProp (JObj fs) name = (case map_of fs name of Some v \<Rightarrow> Inr v | None \<Rightarrow> Inr JUndefined)"
| "getProp v name = Inr JUndefined"

text \<open>
  A counter is a JavaScript number that holds a natural number.  Concatenating it to a
  string writes it in decimal (for the integers below \<^verbatim>\<open>1e21\<close>, which is every value
  a counter incremented from 0 can take).
\<close>

definition digit_char :: "nat \<Rightarrow> char" where
  "digit_char d = ''0123456789'' ! d"

fun decimal :: "nat \<Rightarrow> string" where
  "decimal n = (if n < 10 then [digit_char n] else decimal (n div 10) @ [digit_char (n mod 10)])"

declare decimal.simps [simp del]

section \<open>The WebGL context\<close>

text \<open>
  The part of the WebGL context the light functions drive: the program in use, the
  values of the uniforms of each program, and the calls made, in order.  A uniform
  location is the pair of its program and its name.  A write through a location takes
  effect when the location belongs to the program in use, and is otherwise dropped with
  \<^verbatim>\<open>INVALID_OPERATION\<close>, as WebGL specifies.  The uniforms a shader source declares,
  and the bounds of its arrays, are not modelled: every name resolves to a location.
  The arguments of the writes are stored as given; their conversion to GL floats and
  ints belongs to the browser.
\<close>

type_synonym 'p uniform_location = "'p \<times> string"

datatype 'p gl_call =
    UseProgram 'p
  | GetUniformLocation 'p string
  | Uniform1i "'p uniform_location" jsval
  | Uniform3f "'p uniform_location" jsval jsval jsval
  | Uniform4f "'p uniform_location" jsval jsval jsval jsval

datatype uniform_value =
    Int1 jsval
  | Float3 jsval jsval jsval
  | Float4 jsval jsval jsval jsval

record 'p gl_context =
  currentProgram :: "'p option"
  uniformValues :: "'p uniform_location \<Rightarrow> uniform_value option"
  callLog :: "'p gl_call list"

definition useProgram :: "'p \<Rightarrow> 'p gl_context \<Rightarrow> 'p gl_context" where
  "useProgram p gl = gl\<lparr>currentProgram := Some p, callLog := callLog gl @ [UseProgram p]\<rparr>"

definition getUniformLocation ::
  "'p \<Rightarrow> string \<Rightarrow> 'p gl_context \<Rightarrow> 'p uniform_location \<times> 'p gl_context" where
  "getUniformLocation p name gl = ((p, name), gl\<lparr>callLog := callLog gl @ [GetUniformLocation p name]\<rparr>)"

definition writeUniform :: "'p uniform_location \<Rightarrow> uniform_value \<Rightarrow> 'p gl_context \<Rightarrow> 'p gl_context" where
  "writeUniform loc v gl =
     (if currentProgram gl = Some (fst loc)
      then gl\<lparr>uniformValues := (uniformValues gl)(loc \<mapsto> v)\<rparr>
      else gl)"

definition uniform1i :: "'p uniform_location \<Rightarrow> jsval \<Rightarrow> 'p gl_context \<Rightarrow> 'p gl_context" where
  "uniform1i loc a gl =
     (writeUniform loc (Int1 a) gl)\<lparr>callLog := callLog gl @ [Uniform1i loc a]\<rparr>"

definition uniform3f ::
  "'p uniform_location \<Rightarrow> jsval \<Rightarrow> jsval \<Rightarrow> jsval \<Rightarrow> 'p gl_context \<Rightarrow> 'p gl_context" where
  "uniform3f loc a b c gl =
     (writeUniform loc (Float3 a b c) gl)\<lparr>callLog := callLog gl @ [Uniform3f loc a b c]\<rparr>"

definition uniform4f ::
  "'p uniform_location \<Rightarrow> jsval \<Rightarrow> jsval \<Rightarrow> jsval \<Rightarrow> jsval \<Rightarrow> 'p gl_context \<Rightarrow> 'p gl_context" where
  "uniform4f loc a b c d gl =
     (writeUniform loc (Float4 a b c d) gl)\<lparr>callLog := callLog gl @ [Uniform4f loc a b c d]\<rparr>"

section \<open>The renderer and the light functions\<close>

text \<open>
  The fields of \<^verbatim>\<open>this._renderer\<close> the light functions read and write: the GL context
  and the three counters.  \<^verbatim>\<open>shaderProps\<close> holds the properties the functions assign on
  the shader program object (\<^verbatim>\<open>shaderProgram.uAmbientColor = ...\<close>), keyed by program and
  property name.  A counter is a natural number: \<^verbatim>\<open>++\<close> on a JavaScript number is exact
  below \<^verbatim>\<open>2^53\<close>, far beyond any number of calls.
\<close>

record 'p renderer =
  GL :: "'p gl_context"
  shaderProps :: "'p \<times> string \<Rightarrow> 'p uniform_location option"
  ambientLightCount :: nat
  directionalLightCount :: nat
  pointLightCount :: nat

text \<open>
  Two functions of the repository the light functions call are not in the source files
  at hand and are parameters of the model:
  \<^item> \<^verbatim>\<open>getShader\<close>, for \<^verbatim>\<open>this._renderer._getShader(vertId, fragId)\<close>: the shader
    program of a pair of names;
  \<^item> \<^verbatim>\<open>color\<close>, for \<^verbatim>\<open>this._renderer._pInst.color.apply(_, args)._array\<close>: the array of
    channels the colour resolver computes from an argument list.

  Either may throw, and the light functions catch nothing: the result \<open>Inl e\<close> of a
  parameter is its exception \<open>e\<close>, which ends the call of the light function there.  A
  call that throws leaves the writes it made before: the result of a throwing call is the
  error together with the renderer as it stands then.
\<close>

definition ambientLight ::
  "(string \<Rightarrow> string \<Rightarrow> error + 'p) \<Rightarrow> (jsval list \<Rightarrow> error + jsval list) \<Rightarrow> 'p renderer \<Rightarrow> jsval list
     \<Rightarrow> (error \<times> 'p renderer) + 'p renderer" where
  "ambientLight getShader color r arguments =
     (let gl = GL r in
      case getShader ''lightVert'' ''lightTextureFrag'' of
        Inl e \<Rightarrow> Inl (e, r)
      | Inr shaderProgram \<Rightarrow>
         (let gl = useProgram shaderProgram gl;
              (uAmbientColor, gl) = getUniformLocation shaderProgram
                 (''uAmbientColor['' @ decimal (ambientLightCount r) @ '']'') gl;
              props = (shaderProps r)((shaderProgram, ''uAmbientColor'') \<mapsto> uAmbientColor)
          in case color arguments of
               Inl e \<Rightarrow> Inl (e, r\<lparr>GL := gl, shaderProps := props\<rparr>)
             | Inr colors \<Rightarrow>
                (let gl = uniform3f uAmbientColor
                            (js_index colors 0) (js_index colors 1) (js_index colors 2) gl;
                     (uMaterialColor, gl) = getUniformLocation shaderProgram ''uMaterialColor'' gl;
                     props = props((shaderProgram, ''uMaterialColor'') \<mapsto> uMaterialColor);
                     gl = uniform4f uMaterialColor (JNum 1) (JNum 1) (JNum 1) (JNum 1) gl;
                     count = ambientLightCount r + 1;
                     (uAmbientLightCount, gl) =
                        getUniformLocation shaderProgram ''uAmbientLightCount'' gl;
                     props = props((shaderProgram, ''uAmbientLightCount'') \<mapsto> uAmbientLightCount);
                     gl = uniform1i uAmbientLightCount (JNum (real count)) gl
                 in Inr (r\<lparr>GL := gl, shaderProps := props, ambientLightCount := count\<rparr>))))"

text \<open>
  \<^verbatim>\<open>directionalLight\<close> and \<^verbatim>\<open>pointLight\<close> copy \<^verbatim>\<open>arguments\<close> into a new array
  \<^verbatim>\<open>args\<close>, index by index.
\<close>

definition copyArguments :: "jsval list \<Rightarrow> jsval list" where
  "copyArguments arguments = map (\<lambda>i. js_index arguments (int i)) [0..<length arguments]"

text \<open>
  Both functions then read the vector from the end of \<^verbatim>\<open>args\<close> with the same lines:
  when the last element is a number, the last three elements; otherwise the properties
  \<^verbatim>\<open>x\<close>, \<^verbatim>\<open>y\<close> and \<^verbatim>\<open>z\<close> of the last element, inside a \<^verbatim>\<open>try\<close> whose \<^verbatim>\<open>catch\<close> throws the
  error again.  With no argument at all \<^verbatim>\<open>args[-1]\<close> is \<^verbatim>\<open>undefined\<close>.
\<close>

definition trailingVector :: "jsval list \<Rightarrow> error + (jsval \<times> jsval \<times> jsval)" where
  "trailingVector args =
     (let n = int (length args) in
      if typeof (js_index args (n - 1)) = ''number''
      then Inr (js_index args (n - 3), js_index args (n - 2), js_index args (n - 1))
      else (case getProp (js_index args (n - 1)) ''x'' of
              Inl e \<Rightarrow> Inl e
            | Inr x \<Rightarrow>
               (case getProp (js_index args (n - 1)) ''y'' of
                  Inl e \<Rightarrow> Inl e
                | Inr y \<Rightarrow>
                   (case getProp (js_index args (n - 1)) ''z'' of
                      Inl e \<Rightarrow> Inl e
                    | Inr z \<Rightarrow> Inr (x, y, z)))))"

definition directionalLight ::
  "(string \<Rightarrow> string \<Rightarrow> error + 'p) \<Rightarrow> (jsval list \<Rightarrow> error + jsval list) \<Rightarrow> 'p renderer \<Rightarrow> jsval list
     \<Rightarrow> (error \<times> 'p renderer) + 'p renderer" where
  "directionalLight getShader color r arguments =
     (let v1 = js_index arguments 0; v2 = js_index arguments 1; v3 = js_index arguments 2;
          gl = GL r
      in case getShader ''lightVert'' ''lightTextureFrag'' of
        Inl e \<Rightarrow> Inl (e, r)
      | Inr shaderProgram \<Rightarrow>
         (let gl = useProgram shaderProgram gl;
              (uDirectionalColor, gl) = getUniformLocation shaderProgram
                 (''uDirectionalColor['' @ decimal (directionalLightCount r) @ '']'') gl;
              props = (shaderProps r)((shaderProgram, ''uDirectionalColor'') \<mapsto> uDirectionalColor)
          in case color [v1, v2, v3] of
               Inl e \<Rightarrow> Inl (e, r\<lparr>GL := gl, shaderProps := props\<rparr>)
             | Inr colors \<Rightarrow>
                (let gl = uniform3f uDirectionalColor
                            (js_index colors 0) (js_index colors 1) (js_index colors 2) gl;
                     args = copyArguments arguments
                 in case trailingVector args of
                      Inl e \<Rightarrow> Inl (e, r\<lparr>GL := gl, shaderProps := props\<rparr>)
                    | Inr (x, y, z) \<Rightarrow>
                       (let (uLightingDirection, gl) = getUniformLocation shaderProgram
                              (''uLightingDirection['' @ decimal (directionalLightCount r) @ '']'') gl;
                            props = props((shaderProgram, ''uLightingDirection'') \<mapsto> uLightingDirection);
                            gl = uniform3f uLightingDirection x y z gl;
                            (uMaterialColor, gl) =
                               getUniformLocation shaderProgram ''uMaterialColor'' gl;
                            props = props((shaderProgram, ''uMaterialColor'') \<mapsto> uMaterialColor);
                            gl = uniform4f uMaterialColor (JNum 1) (JNum 1) (JNum 1) (JNum 1) gl;
                            count = directionalLightCount r + 1;
                            (uDirectionalLightCount, gl) =
                               getUniformLocation shaderProgram ''uDirectionalLightCount'' gl;
                            props = props((shaderProgram, ''uDirectionalLightCount'') \<mapsto>
                                            uDirectionalLightCount);
                            gl = uniform1i uDirectionalLightCount (JNum (real count)) gl
                        in Inr (r\<lparr>GL := gl, shaderProps := props,
                                   directionalLightCount := count\<rparr>)))))"

definition pointLight ::
  "(string \<Rightarrow> string \<Rightarrow> error + 'p) \<Rightarrow> (jsval list \<Rightarrow> error + jsval list) \<Rightarrow> 'p renderer \<Rightarrow> jsval list
     \<Rightarrow> (error \<times> 'p renderer) + 'p renderer" where
  "pointLight getShader color r arguments =
     (let v1 = js_index arguments 0; v2 = js_index arguments 1; v3 = js_index arguments 2;
          gl = GL r
      in case getShader ''lightVert'' ''lightTextureFrag'' of
        Inl e \<Rightarrow> Inl (e, r)
      | Inr shaderProgram \<Rightarrow>
         (let gl = useProgram shaderProgram gl;
              (uPointLightColor, gl) = getUniformLocation shaderProgram
                 (''uPointLightColor['' @ decimal (pointLightCount r) @ '']'') gl;
              props = (shaderProps r)((shaderProgram, ''uPointLightColor'') \<mapsto> uPointLightColor)
          in case color [v1, v2, v3] of
               Inl e \<Rightarrow> Inl (e, r\<lparr>GL := gl, shaderProps := props\<rparr>)
             | Inr colors \<Rightarrow>
                (let gl = uniform3f uPointLightColor
                            (js_index colors 0) (js_index colors 1) (js_index colors 2) gl;
                     args = copyArguments arguments
                 in case trailingVector args of
                      Inl e \<Rightarrow> Inl (e, r\<lparr>GL := gl, shaderProps := props\<rparr>)
                    | Inr (x, y, z) \<Rightarrow>
                       (let (uPointLightLocation, gl) = getUniformLocation shaderProgram
                              (''uPointLightLocation['' @ decimal (pointLightCount r) @ '']'') gl;
                            props = props((shaderProgram, ''uPointLightLocation'') \<mapsto> uPointLightLocation);
                            gl = uniform3f uPointLightLocation x y z gl;
                            (uMaterialColor, gl) =
                               getUniformLocation shaderProgram ''uMaterialColor'' gl;
                            props = props((shaderProgram, ''uMaterialColor'') \<mapsto> uMaterialColor);
                            gl = uniform4f uMaterialColor (JNum 1) (JNum 1) (JNum 1) (JNum 1) gl;
                            count = pointLightCount r + 1;
                            (uPointLightCount, gl) =
                               getUniformLocation shaderProgram ''uPointLightCount'' gl;
                            props = props((shaderProgram, ''uPointLightCount'') \<mapsto> uPointLightCount);
                            gl = uniform1i uPointLightCount (JNum (real count)) gl
                        in Inr (r\<lparr>GL := gl, shaderProps := props, pointLightCount := count\<rparr>)))))"

section \<open>Images: the image mode and the tint\<close>

text \<open>
  A canvas of the page: its dimensions and its bitmap, four bytes (red, green, blue,
  alpha) for each pixel, row by row.  The canvases of the page live in a store, a list
  indexed by reference: a JavaScript value that is a canvas is a reference into the store,
  a \<^verbatim>\<open>p5.Image\<close> holds the reference of its own canvas, and creating a canvas extends
  the store by one.
\<close>

record canvas =
  width :: nat
  height :: nat
  pixelData :: "8 word list"


text \<open>
  The fields of the sketch (\<^verbatim>\<open>this\<close>) that the image functions read and write are
  \<^verbatim>\<open>_imageMode\<close>, \<^verbatim>\<open>_tint\<close> and \<^verbatim>\<open>_curElement\<close>; an Isabelle name cannot start with an
  underscore, so the names of the model start with \<^verbatim>\<open>u_\<close>.  \<^verbatim>\<open>u_tint\<close> is \<open>None\<close> for
  \<^verbatim>\<open>null\<close> and otherwise the array \<^verbatim>\<open>tint\<close> stored, an array of numbers;
  \<^verbatim>\<open>u_curElement\<close> is the reference of the canvas that \<^verbatim>\<open>this._curElement.context\<close>
  draws on.  \<^verbatim>\<open>document\<close> is the store of canvases.
\<close>

record sketch =
  u_imageMode :: jsval
  u_tint :: "real list option"
  u_curElement :: nat
  document :: "canvas list"

text \<open>
  The values of the module \<^verbatim>\<open>constants\<close>, which is not among the source files: they are
  a parameter.  The documentation of \<^verbatim>\<open>imageMode\<close> types its argument as a String, the
  type of the three constants.  \<^verbatim>\<open>m === c\<close> with \<^verbatim>\<open>c\<close> a string holds when \<^verbatim>\<open>m\<close> is a
  string with the same characters, and for no value of another type.
\<close>

record constants =
  CORNER :: string
  CORNERS :: string
  CENTER :: string

fun strictEqualsString :: "jsval \<Rightarrow> string \<Rightarrow> bool" where
  "strictEqualsString (JStr a) c = (a = c)"
| "strictEqualsString v c = False"

definition imageMode :: "constants \<Rightarrow> sketch \<Rightarrow> jsval \<Rightarrow> sketch" where
  "imageMode K this m =
     (if strictEqualsString m (CORNER K) \<or>
         strictEqualsString m (CORNERS K) \<or>
         strictEqualsString m (CENTER K)
      then this\<lparr>u_imageMode := m\<rparr>
      else this)"

text \<open>
  \<^verbatim>\<open>tint\<close> stores what \<^verbatim>\<open>getNormalizedColor\<close> makes of its arguments (a function of the
  repository that is not among the source files: a parameter, taken to return an array
  of numbers); \<^verbatim>\<open>noTint\<close> stores \<^verbatim>\<open>null\<close>.
\<close>

definition tint :: "(jsval list \<Rightarrow> real list) \<Rightarrow> sketch \<Rightarrow> jsval list \<Rightarrow> sketch" where
  "tint getNormalizedColor this arguments = this\<lparr>u_tint := Some (getNormalizedColor arguments)\<rparr>"

definition noTint :: "sketch \<Rightarrow> sketch" where
  "noTint this = this\<lparr>u_tint := None\<rparr>"

subsection \<open>The browser's canvas functions\<close>

text \<open>
  The functions of the browser that \<^verbatim>\<open>_getTintedImageCanvas\<close> calls, as the HTML
  standard has them, without the loss of precision that premultiplied alpha brings to a
  real bitmap.  A new or resized canvas is transparent black.
\<close>

definition blankCanvas :: "nat \<Rightarrow> nat \<Rightarrow> canvas" where
  "blankCanvas w h = \<lparr>width = w, height = h, pixelData = replicate (4 * w * h) 0\<rparr>"

text \<open>\<^verbatim>\<open>document.createElement('canvas')\<close>: a new canvas, 300 by 150, at a new reference.\<close>

definition createCanvasElement :: "canvas list \<Rightarrow> nat \<times> canvas list" where
  "createCanvasElement doc = (length doc, doc @ [blankCanvas 300 150])"

text \<open>Assigning \<^verbatim>\<open>canvas.width\<close> or \<^verbatim>\<open>canvas.height\<close> resizes and clears the canvas.\<close>

definition setCanvasWidth :: "nat \<Rightarrow> nat \<Rightarrow> canvas list \<Rightarrow> canvas list" where
  "setCanvasWidth c w doc = doc[c := blankCanvas w (height (doc ! c))]"

definition setCanvasHeight :: "nat \<Rightarrow> nat \<Rightarrow> canvas list \<Rightarrow> canvas list" where
  "setCanvasHeight c h doc = doc[c := blankCanvas (width (doc ! c)) h]"



subsection \<open>The tinted copy of an image\<close>


definition typedSet :: "8 word list \<Rightarrow> nat \<Rightarrow> 8 word \<Rightarrow> 8 word list" where
  "typedSet xs i v = (if i < length xs then xs[i := v] else xs)"








section \<open>Light types, and sequences of registrations\<close>

text \<open>
  The three functions follow one protocol on different uniforms.  The definitions of this
  section name, for each light type, the function, the counter and the uniforms the
  properties below are about, so that a property of all three reads once.
\<close>

datatype light_type = Ambient | Directional | Point

fun registerLight ::
  "light_type \<Rightarrow> (string \<Rightarrow> string \<Rightarrow> error + 'p) \<Rightarrow> (jsval list \<Rightarrow> error + jsval list)
     \<Rightarrow> 'p renderer \<Rightarrow> jsval list \<Rightarrow> (error \<times> 'p renderer) + 'p renderer" where
  "registerLight Ambient getShader color r arguments = ambientLight getShader color r arguments"
| "registerLight Directional getShader color r arguments = directionalLight getShader color r arguments"
| "registerLight Point getShader color r arguments = pointLight getShader color r arguments"

fun lightCount :: "light_type \<Rightarrow> 'p renderer \<Rightarrow> nat" where
  "lightCount Ambient r = ambientLightCount r"
| "lightCount Directional r = directionalLightCount r"
| "lightCount Point r = pointLightCount r"

fun colorUniform :: "light_type \<Rightarrow> string" where
  "colorUniform Ambient = ''uAmbientColor''"
| "colorUniform Directional = ''uDirectionalColor''"
| "colorUniform Point = ''uPointLightColor''"

fun countUniform :: "light_type \<Rightarrow> string" where
  "countUniform Ambient = ''uAmbientLightCount''"
| "countUniform Directional = ''uDirectionalLightCount''"
| "countUniform Point = ''uPointLightCount''"

fun geometryUniform :: "light_type \<Rightarrow> string option" where
  "geometryUniform Ambient = None"
| "geometryUniform Directional = Some ''uLightingDirection''"
| "geometryUniform Point = Some ''uPointLightLocation''"

text \<open>The name of the element \<open>i\<close> of a uniform array.\<close>

definition indexed :: "string \<Rightarrow> nat \<Rightarrow> string" where
  "indexed name i = name @ ''['' @ decimal i @ '']''"

text \<open>
  The argument list a call hands to the colour resolver: \<^verbatim>\<open>ambientLight\<close> passes all of
  its \<^verbatim>\<open>arguments\<close>, the other two pass \<^verbatim>\<open>[v1, v2, v3]\<close>, their first three
  parameters (\<^verbatim>\<open>undefined\<close> where the call has fewer arguments).
\<close>

fun colorArguments :: "light_type \<Rightarrow> jsval list \<Rightarrow> jsval list" where
  "colorArguments Ambient arguments = arguments"
| "colorArguments Directional arguments = [js_index arguments 0, js_index arguments 1, js_index arguments 2]"
| "colorArguments Point arguments = [js_index arguments 0, js_index arguments 1, js_index arguments 2]"

text \<open>The three channels of a resolved colour that a light function reads.\<close>

definition rgb :: "jsval list \<Rightarrow> uniform_value" where
  "rgb colors = Float3 (js_index colors 0) (js_index colors 1) (js_index colors 2)"

text \<open>The state a call leaves, whether it returned or threw.\<close>

fun outcome :: "(error \<times> 'a) + 'a \<Rightarrow> 'a" where
  "outcome (Inl (e, r)) = r"
| "outcome (Inr r) = r"

text \<open>
  A frame registers lights by calling the functions one after the other; a call that
  throws ends the sequence.
\<close>

fun registerLights ::
  "light_type \<Rightarrow> (string \<Rightarrow> string \<Rightarrow> error + 'p) \<Rightarrow> (jsval list \<Rightarrow> error + jsval list)
     \<Rightarrow> 'p renderer \<Rightarrow> jsval list list \<Rightarrow> (error \<times> 'p renderer) + 'p renderer" where
  "registerLights t getShader color r [] = Inr r"
| "registerLights t getShader color r (arguments # rest) =
     (case registerLight t getShader color r arguments of
        Inl e \<Rightarrow> Inl e
      | Inr r' \<Rightarrow> registerLights t getShader color r' rest)"

text \<open>A call of the GL log that reads or writes a uniform of the program \<open>p\<close>.\<close>

fun uniformCallOf :: "'p \<Rightarrow> 'p gl_call \<Rightarrow> bool" where
  "uniformCallOf p (UseProgram q) = False"
| "uniformCallOf p (GetUniformLocation q name) = (q = p)"
| "uniformCallOf p (Uniform1i loc a) = (fst loc = p)"
| "uniformCallOf p (Uniform3f loc a b c) = (fst loc = p)"
| "uniformCallOf p (Uniform4f loc a b c d) = (fst loc = p)"

text \<open>The material colour the three functions write.\<close>

abbreviation white :: uniform_value where
  "white \<equiv> Float4 (JNum 1) (JNum 1) (JNum 1) (JNum 1)"

text \<open>
  A last argument the vector can be read from: any value but \<^verbatim>\<open>undefined\<close> and
  \<^verbatim>\<open>null\<close>, on which the property read throws; a call without arguments has none.
\<close>

definition usableTail :: "jsval list \<Rightarrow> bool" where
  "usableTail arguments \<longleftrightarrow> arguments \<noteq> [] \<and> last arguments \<noteq> JUndefined \<and> last arguments \<noteq> JNull"

section \<open>Sample inputs\<close>

text \<open>
  Modelled from the spec: the Color Resolver (\<^verbatim>\<open>p5.prototype.color\<close>, which is not among
  the source files).  The spec has it take gray or RGB numbers with an optional alpha and
  return four channels in the active range, \<^verbatim>\<open>ambientLight(150)\<close> resolving to
  (150, 150, 150) in the default range 0 to 255.  Only these numeric forms are modelled;
  on any other argument list the sample returns an empty array.  It serves the concrete
  examples only: every general theorem holds for any resolver.  \<open>sampleColor\<close> is this
  resolver as a parameter of the light functions: it never throws.
\<close>

fun numberOf :: "jsval \<Rightarrow> real option" where
  "numberOf (JNum n) = Some n"
| "numberOf v = None"

definition resolveColor :: "jsval list \<Rightarrow> jsval list" where
  "resolveColor args =
     (case those (map numberOf args) of
        Some [g] \<Rightarrow> [JNum g, JNum g, JNum g, JNum 255]
      | Some [g, a] \<Rightarrow> [JNum g, JNum g, JNum g, JNum a]
      | Some [r, g, b] \<Rightarrow> [JNum r, JNum g, JNum b, JNum 255]
      | Some [r, g, b, a] \<Rightarrow> [JNum r, JNum g, JNum b, JNum a]
      | _ \<Rightarrow> [])"

definition sampleColor :: "jsval list \<Rightarrow> error + jsval list" where
  "sampleColor args = Inr (resolveColor args)"

text \<open>
  Two calls of \<^verbatim>\<open>directionalLight\<close>: the spec's scenario with three trailing numbers, and
  a call with a vector object.
\<close>

definition sampleDirectionalCalls :: "jsval list list" where
  "sampleDirectionalCalls =
     [[JNum 250, JNum 250, JNum 250, JNum 0.5, JNum (- 0.5), JNum 0.25],
      [JNum 10, JNum 20, JNum 30, JObj [(''x'', JNum 1), (''y'', JNum 2), (''z'', JNum 3)]]]"

text \<open>
  Two calls of \<^verbatim>\<open>ambientLight\<close> and two of \<^verbatim>\<open>pointLight\<close>.
\<close>

definition sampleAmbientCalls :: "jsval list list" where
  "sampleAmbientCalls = [[JNum 150], [JNum 10, JNum 20, JNum 30]]"

definition samplePointCalls :: "jsval list list" where
  "samplePointCalls =
     [[JNum 250, JNum 250, JNum 250, JNum 1, JNum 2, JNum 3],
      [JNum 40, JNum 50, JNum 60, JObj [(''x'', JNum 0), (''y'', JNum 0), (''z'', JNum 0)]]]"

text \<open>
  A shader registry whose program handles are the pairs of names, and which never
  throws.
\<close>

definition namedProgram :: "string \<Rightarrow> string \<Rightarrow> error + string \<times> string" where
  "namedProgram vertId fragId = Inr (vertId, fragId)"

text \<open>
  A resolver that throws on every argument list other than the numeric forms, and a
  registry that throws on every pair of names: the two ways a light function can fail
  before it reads its vector.
\<close>

definition strictColor :: "jsval list \<Rightarrow> error + jsval list" where
  "strictColor args = (if resolveColor args = [] then Inl TypeError else Inr (resolveColor args))"

definition noProgram :: "string \<Rightarrow> string \<Rightarrow> error + string \<times> string" where
  "noProgram vertId fragId = Inl TypeError"

text \<open>A renderer at the start of a frame: no program in use, nothing written, no light.\<close>

definition newRenderer :: "(string \<times> string) renderer" where
  "newRenderer =
     \<lparr>GL = \<lparr>currentProgram = None, uniformValues = Map.empty, callLog = []\<rparr>,
      shaderProps = Map.empty,
      ambientLightCount = 0, directionalLightCount = 0, pointLightCount = 0\<rparr>"

text \<open>
  Sample values of the three constants (any three strings do), and a sketch with two
  canvases: the canvas it draws on, and the canvas of an image of one pixel.  The tint
  is (255, 128, 0, 255).
\<close>

definition sampleConstants :: constants where
  "sampleConstants = \<lparr>CORNER = ''corner'', CORNERS = ''corners'', CENTER = ''center''\<rparr>"

definition sampleSketch :: sketch where
  "sampleSketch =
     \<lparr>u_imageMode = JStr ''corner'',
      u_tint = Some [255, 128, 0, 255],
      u_curElement = 0,
      document = [\<lparr>width = 1, height = 1, pixelData = [0, 0, 0, 0]\<rparr>,
                  \<lparr>width = 1, height = 1, pixelData = [10, 3, 30, 40]\<rparr>]\<rparr>"


section \<open>Names of uniforms, and reading the arguments\<close>

text \<open>Two counters have the same decimal writing only when they are equal.\<close>

lemma decimal_nonempty: "decimal n \<noteq> []"
  by (subst decimal.simps) simp

lemma decimal_last: "last (decimal n) = digit_char (n mod 10)"
  by (subst decimal.simps) simp

lemma decimal_butlast: "butlast (decimal n) = (if n < 10 then [] else decimal (n div 10))"
  by (subst decimal.simps) simp

lemma digit_char_inj: "a < 10 \<Longrightarrow> b < 10 \<Longrightarrow> digit_char a = digit_char b \<Longrightarrow> a = b"
proof -
  assume a: "a < 10" and b: "b < 10" and e: "digit_char a = digit_char b"
  have d: "distinct ''0123456789''" by simp
  have "''0123456789'' ! a = ''0123456789'' ! b" using e by (simp only: digit_char_def)
  moreover have "a < length ''0123456789''" "b < length ''0123456789''" using a b by simp_all
  ultimately show "a = b" using d by (simp only: nth_eq_iff_index_eq)
qed

lemma decimal_inj: "decimal n = decimal m \<Longrightarrow> n = m"
proof (induction n arbitrary: m rule: decimal.induct)
  case (1 n)
  have l: "digit_char (n mod 10) = digit_char (m mod 10)"
    using "1.prems" decimal_last by metis
  then have lm: "n mod 10 = m mod 10"
    by (intro digit_char_inj) simp_all
  have b: "butlast (decimal n) = butlast (decimal m)" using "1.prems" by simp
  show ?case
  proof (cases "n < 10")
    case True
    have "m < 10"
    proof (rule ccontr)
      assume "\<not> m < 10"
      with True b have "decimal (m div 10) = []" by (simp add: decimal_butlast)
      then show False using decimal_nonempty by blast
    qed
    with True lm show ?thesis by simp
  next
    case False
    have m: "\<not> m < 10"
    proof
      assume "m < 10"
      with False b have "decimal (n div 10) = []" by (simp add: decimal_butlast)
      then show False using decimal_nonempty by blast
    qed
    with False b have "decimal (n div 10) = decimal (m div 10)" by (simp add: decimal_butlast)
    then have "n div 10 = m div 10" using "1.IH" False by simp
    with lm show ?thesis by (metis div_mult_mod_eq)
  qed
qed

lemma indexed_inj [simp]: "indexed name i = indexed name j \<longleftrightarrow> i = j"
  by (auto simp: indexed_def dest: decimal_inj)

lemma indexed_base:
  assumes "CHR ''['' \<notin> set name"
  shows "takeWhile (\<lambda>c. c \<noteq> CHR ''['') (indexed name i) = name"
  unfolding indexed_def using assms by (subst takeWhile_append2) auto

lemma indexed_eq_iff:
  assumes "CHR ''['' \<notin> set a" and "CHR ''['' \<notin> set b"
  shows "indexed a i = indexed b j \<longleftrightarrow> a = b \<and> i = j"
proof
  assume e: "indexed a i = indexed b j"
  then have "a = b" using indexed_base[OF assms(1), of i] indexed_base[OF assms(2), of j] by simp
  with e show "a = b \<and> i = j" by simp
qed simp

lemma indexed_neq_plain:
  assumes "CHR ''['' \<notin> set s"
  shows "indexed name i \<noteq> s" and "s \<noteq> indexed name i"
proof -
  have "CHR ''['' \<in> set (indexed name i)" by (simp add: indexed_def)
  with assms show "indexed name i \<noteq> s" and "s \<noteq> indexed name i" by auto
qed

lemmas name_simps = indexed_eq_iff indexed_neq_plain


lemma decimal_digit: "n < 10 \<Longrightarrow> decimal n = [digit_char n]"
  by (subst decimal.simps) simp

lemma indexed_0: "indexed name 0 = name @ ''[0]''"
  by (simp add: indexed_def decimal_digit digit_char_def)

lemma indexed_1: "indexed name (Suc 0) = name @ ''[1]''"
  by (simp add: indexed_def decimal_digit digit_char_def)

lemma js_index_nat: "js_index xs (int k) = (if k < length xs then xs ! k else JUndefined)"
  by (simp add: js_index_def)

lemma js_index_append3:
  "js_index (pre @ [a, b, c]) (int (length (pre @ [a, b, c])) - 1) = c"
  "js_index (pre @ [a, b, c]) (int (length (pre @ [a, b, c])) - 2) = b"
  "js_index (pre @ [a, b, c]) (int (length (pre @ [a, b, c])) - 3) = a"
proof -
  have 1: "int (length (pre @ [a, b, c])) - 1 = int (length pre + 2)" by simp
  have 2: "int (length (pre @ [a, b, c])) - 2 = int (length pre + 1)" by simp
  have 3: "int (length (pre @ [a, b, c])) - 3 = int (length pre)" by simp
  show "js_index (pre @ [a, b, c]) (int (length (pre @ [a, b, c])) - 1) = c"
    unfolding 1 js_index_nat by (simp add: nth_append)
  show "js_index (pre @ [a, b, c]) (int (length (pre @ [a, b, c])) - 2) = b"
    unfolding 2 js_index_nat by (simp add: nth_append)
  show "js_index (pre @ [a, b, c]) (int (length (pre @ [a, b, c])) - 3) = a"
    unfolding 3 js_index_nat by (simp add: nth_append)
qed

lemma js_index_last:
  "js_index args (int (length args) - 1) = (if args = [] then JUndefined else last args)"
proof (cases args rule: rev_cases)
  case Nil
  then show ?thesis by (simp add: js_index_def)
next
  case (snoc ys y)
  have "int (length (ys @ [y])) - 1 = int (length ys)" by simp
  then show ?thesis unfolding snoc js_index_nat by (simp add: js_index_nat)
qed

lemma getProp_Inl: "getProp v name = Inl e \<longleftrightarrow> (v = JUndefined \<or> v = JNull) \<and> e = TypeError"
  by (cases v; cases e) (auto split: option.splits)

lemma typeof_number: "typeof v = ''number'' \<longleftrightarrow> (\<exists>n. v = JNum n)"
  by (cases v) auto

lemma trailingVector_throws_iff:
  "trailingVector args = Inl e \<longleftrightarrow>
     (args = [] \<or> last args = JUndefined \<or> last args = JNull) \<and> e = TypeError"
proof -
  define v where "v = js_index args (int (length args) - 1)"
  have v: "v = (if args = [] then JUndefined else last args)"
    unfolding v_def by (rule js_index_last)
  have "trailingVector args = Inl e \<longleftrightarrow> (v = JUndefined \<or> v = JNull) \<and> e = TypeError"
    unfolding trailingVector_def Let_def v_def[symmetric]
    by (cases v; cases e) (auto split: option.splits)
  then show ?thesis using v by auto
qed

lemma trailingVector_numbers:
  "trailingVector (pre @ [x, y, JNum z]) = Inr (x, y, JNum z)"
  unfolding trailingVector_def Let_def js_index_append3 by simp

lemma trailingVector_object:
  "trailingVector (pre @ [JObj fs]) =
     Inr (case map_of fs ''x'' of Some v \<Rightarrow> v | None \<Rightarrow> JUndefined,
          case map_of fs ''y'' of Some v \<Rightarrow> v | None \<Rightarrow> JUndefined,
          case map_of fs ''z'' of Some v \<Rightarrow> v | None \<Rightarrow> JUndefined)"
  unfolding trailingVector_def Let_def js_index_last by (simp split: option.splits)

section \<open>What one call does\<close>

lemmas gl_defs =
  useProgram_def getUniformLocation_def uniform3f_def uniform4f_def uniform1i_def writeUniform_def

lemma copyArguments_id: "copyArguments xs = xs"
proof (rule nth_equalityI)
  show "length (copyArguments xs) = length xs"
    by (simp add: copyArguments_def)
next
  fix i
  assume "i < length (copyArguments xs)"
  then have "i < length xs"
    by (simp add: copyArguments_def)
  then show "copyArguments xs ! i = xs ! i"
    by (simp add: copyArguments_def js_index_def)
qed

lemma ambientLight_shader_throws:
  assumes "gs ''lightVert'' ''lightTextureFrag'' = Inl e"
  shows "ambientLight gs col r args = Inl (e, r)"
  using assms by (simp add: ambientLight_def)

lemma ambientLight_color_throws:
  assumes "gs ''lightVert'' ''lightTextureFrag'' = Inr p" and "col args = Inl e"
  shows "\<exists>r'. ambientLight gs col r args = Inl (e, r') \<and>
     uniformValues (GL r') = uniformValues (GL r) \<and>
     callLog (GL r') = callLog (GL r) @
       [UseProgram p, GetUniformLocation p (indexed ''uAmbientColor'' (ambientLightCount r))] \<and>
     currentProgram (GL r') = Some p \<and>
     ambientLightCount r' = ambientLightCount r \<and>
     directionalLightCount r' = directionalLightCount r \<and>
     pointLightCount r' = pointLightCount r"
  using assms by (simp add: ambientLight_def Let_def gl_defs indexed_def)

lemma ambientLight_returns:
  assumes "gs ''lightVert'' ''lightTextureFrag'' = Inr p" and "col args = Inr c"
  shows "\<exists>r'. ambientLight gs col r args = Inr r' \<and>
     uniformValues (GL r') = (uniformValues (GL r))
       ((p, indexed ''uAmbientColor'' (ambientLightCount r)) \<mapsto> rgb c,
        (p, ''uMaterialColor'') \<mapsto> white,
        (p, ''uAmbientLightCount'') \<mapsto> Int1 (JNum (real (ambientLightCount r + 1)))) \<and>
     callLog (GL r') = callLog (GL r) @
       [UseProgram p,
        GetUniformLocation p (indexed ''uAmbientColor'' (ambientLightCount r)),
        Uniform3f (p, indexed ''uAmbientColor'' (ambientLightCount r))
          (js_index c 0) (js_index c 1) (js_index c 2),
        GetUniformLocation p ''uMaterialColor'',
        Uniform4f (p, ''uMaterialColor'') (JNum 1) (JNum 1) (JNum 1) (JNum 1),
        GetUniformLocation p ''uAmbientLightCount'',
        Uniform1i (p, ''uAmbientLightCount'') (JNum (real (ambientLightCount r + 1)))] \<and>
     currentProgram (GL r') = Some p \<and>
     ambientLightCount r' = ambientLightCount r + 1 \<and>
     directionalLightCount r' = directionalLightCount r \<and>
     pointLightCount r' = pointLightCount r"
  using assms by (simp add: ambientLight_def Let_def gl_defs indexed_def rgb_def)

lemma directionalLight_shader_throws:
  assumes "gs ''lightVert'' ''lightTextureFrag'' = Inl e"
  shows "directionalLight gs col r args = Inl (e, r)"
  using assms by (simp add: directionalLight_def)

lemma directionalLight_color_throws:
  assumes "gs ''lightVert'' ''lightTextureFrag'' = Inr p"
    and "col (colorArguments Directional args) = Inl e"
  shows "\<exists>r'. directionalLight gs col r args = Inl (e, r') \<and>
     uniformValues (GL r') = uniformValues (GL r) \<and>
     callLog (GL r') = callLog (GL r) @
       [UseProgram p, GetUniformLocation p (indexed ''uDirectionalColor'' (directionalLightCount r))] \<and>
     currentProgram (GL r') = Some p \<and>
     ambientLightCount r' = ambientLightCount r \<and>
     directionalLightCount r' = directionalLightCount r \<and>
     pointLightCount r' = pointLightCount r"
  using assms by (simp add: directionalLight_def Let_def gl_defs indexed_def)

lemma directionalLight_returns:
  assumes "gs ''lightVert'' ''lightTextureFrag'' = Inr p"
    and "col (colorArguments Directional args) = Inr c"
    and "trailingVector args = Inr (x, y, z)"
  shows "\<exists>r'. directionalLight gs col r args = Inr r' \<and>
     uniformValues (GL r') = (uniformValues (GL r))
       ((p, indexed ''uDirectionalColor'' (directionalLightCount r)) \<mapsto> rgb c,
        (p, indexed ''uLightingDirection'' (directionalLightCount r)) \<mapsto> Float3 x y z,
        (p, ''uMaterialColor'') \<mapsto> white,
        (p, ''uDirectionalLightCount'') \<mapsto> Int1 (JNum (real (directionalLightCount r + 1)))) \<and>
     callLog (GL r') = callLog (GL r) @
       [UseProgram p,
        GetUniformLocation p (indexed ''uDirectionalColor'' (directionalLightCount r)),
        Uniform3f (p, indexed ''uDirectionalColor'' (directionalLightCount r))
          (js_index c 0) (js_index c 1) (js_index c 2),
        GetUniformLocation p (indexed ''uLightingDirection'' (directionalLightCount r)),
        Uniform3f (p, indexed ''uLightingDirection'' (directionalLightCount r)) x y z,
        GetUniformLocation p ''uMaterialColor'',
        Uniform4f (p, ''uMaterialColor'') (JNum 1) (JNum 1) (JNum 1) (JNum 1),
        GetUniformLocation p ''uDirectionalLightCount'',
        Uniform1i (p, ''uDirectionalLightCount'') (JNum (real (directionalLightCount r + 1)))] \<and>
     currentProgram (GL r') = Some p \<and>
     ambientLightCount r' = ambientLightCount r \<and>
     directionalLightCount r' = directionalLightCount r + 1 \<and>
     pointLightCount r' = pointLightCount r"
  using assms
  by (simp add: directionalLight_def Let_def gl_defs indexed_def rgb_def copyArguments_id)

lemma directionalLight_throws:
  assumes "gs ''lightVert'' ''lightTextureFrag'' = Inr p"
    and "col (colorArguments Directional args) = Inr c"
    and "trailingVector args = Inl e"
  shows "\<exists>r'. directionalLight gs col r args = Inl (e, r') \<and>
     uniformValues (GL r') = (uniformValues (GL r))
       ((p, indexed ''uDirectionalColor'' (directionalLightCount r)) \<mapsto> rgb c) \<and>
     callLog (GL r') = callLog (GL r) @
       [UseProgram p,
        GetUniformLocation p (indexed ''uDirectionalColor'' (directionalLightCount r)),
        Uniform3f (p, indexed ''uDirectionalColor'' (directionalLightCount r))
          (js_index c 0) (js_index c 1) (js_index c 2)] \<and>
     currentProgram (GL r') = Some p \<and>
     ambientLightCount r' = ambientLightCount r \<and>
     directionalLightCount r' = directionalLightCount r \<and>
     pointLightCount r' = pointLightCount r"
  using assms
  by (simp add: directionalLight_def Let_def gl_defs indexed_def rgb_def copyArguments_id)

lemma pointLight_shader_throws:
  assumes "gs ''lightVert'' ''lightTextureFrag'' = Inl e"
  shows "pointLight gs col r args = Inl (e, r)"
  using assms by (simp add: pointLight_def)

lemma pointLight_color_throws:
  assumes "gs ''lightVert'' ''lightTextureFrag'' = Inr p"
    and "col (colorArguments Point args) = Inl e"
  shows "\<exists>r'. pointLight gs col r args = Inl (e, r') \<and>
     uniformValues (GL r') = uniformValues (GL r) \<and>
     callLog (GL r') = callLog (GL r) @
       [UseProgram p, GetUniformLocation p (indexed ''uPointLightColor'' (pointLightCount r))] \<and>
     currentProgram (GL r') = Some p \<and>
     ambientLightCount r' = ambientLightCount r \<and>
     directionalLightCount r' = directionalLightCount r \<and>
     pointLightCount r' = pointLightCount r"
  using assms by (simp add: pointLight_def Let_def gl_defs indexed_def)

lemma pointLight_returns:
  assumes "gs ''lightVert'' ''lightTextureFrag'' = Inr p"
    and "col (colorArguments Point args) = Inr c"
    and "trailingVector args = Inr (x, y, z)"
  shows "\<exists>r'. pointLight gs col r args = Inr r' \<and>
     uniformValues (GL r') = (uniformValues (GL r))
       ((p, indexed ''uPointLightColor'' (pointLightCount r)) \<mapsto> rgb c,
        (p, indexed ''uPointLightLocation'' (pointLightCount r)) \<mapsto> Float3 x y z,
        (p, ''uMaterialColor'') \<mapsto> white,
        (p, ''uPointLightCount'') \<mapsto> Int1 (JNum (real (pointLightCount r + 1)))) \<and>
     callLog (GL r') = callLog (GL r) @
       [UseProgram p,
        GetUniformLocation p (indexed ''uPointLightColor'' (pointLightCount r)),
        Uniform3f (p, indexed ''uPointLightColor'' (pointLightCount r))
          (js_index c 0) (js_index c 1) (js_index c 2),
        GetUniformLocation p (indexed ''uPointLightLocation'' (pointLightCount r)),
        Uniform3f (p, indexed ''uPointLightLocation'' (pointLightCount r)) x y z,
        GetUniformLocation p ''uMaterialColor'',
        Uniform4f (p, ''uMaterialColor'') (JNum 1) (JNum 1) (JNum 1) (JNum 1),
        GetUniformLocation p ''uPointLightCount'',
        Uniform1i (p, ''uPointLightCount'') (JNum (real (pointLightCount r + 1)))] \<and>
     currentProgram (GL r') = Some p \<and>
     ambientLightCount r' = ambientLightCount r \<and>
     directionalLightCount r' = directionalLightCount r \<and>
     pointLightCount r' = pointLightCount r + 1"
  using assms
  by (simp add: pointLight_def Let_def gl_defs indexed_def rgb_def copyArguments_id)

lemma pointLight_throws:
  assumes "gs ''lightVert'' ''lightTextureFrag'' = Inr p"
    and "col (colorArguments Point args) = Inr c"
    and "trailingVector args = Inl e"
  shows "\<exists>r'. pointLight gs col r args = Inl (e, r') \<and>
     uniformValues (GL r') = (uniformValues (GL r))
       ((p, indexed ''uPointLightColor'' (pointLightCount r)) \<mapsto> rgb c) \<and>
     callLog (GL r') = callLog (GL r) @
       [UseProgram p,
        GetUniformLocation p (indexed ''uPointLightColor'' (pointLightCount r)),
        Uniform3f (p, indexed ''uPointLightColor'' (pointLightCount r))
          (js_index c 0) (js_index c 1) (js_index c 2)] \<and>
     currentProgram (GL r') = Some p \<and>
     ambientLightCount r' = ambientLightCount r \<and>
     directionalLightCount r' = directionalLightCount r \<and>
     pointLightCount r' = pointLightCount r"
  using assms
  by (simp add: pointLight_def Let_def gl_defs indexed_def rgb_def copyArguments_id)


lemma trailingVector_Inl_iff:
  "trailingVector args = Inl e \<longleftrightarrow> \<not> usableTail args \<and> e = TypeError"
  by (auto simp: trailingVector_throws_iff usableTail_def)

lemma trailingVector_usable:
  assumes "usableTail args"
  shows "\<exists>x y z. trailingVector args = Inr (x, y, z)"
proof (cases "trailingVector args")
  case (Inl e)
  with assms show ?thesis by (simp add: trailingVector_Inl_iff)
next
  case (Inr v)
  then show ?thesis by (cases v) auto
qed

lemma lightCount_cases:
  assumes "ambientLightCount r' = ambientLightCount r"
    and "directionalLightCount r' = directionalLightCount r"
    and "pointLightCount r' = pointLightCount r"
  shows "lightCount t' r' = lightCount t' r"
  using assms by (cases t') simp_all

lemma registerLight_shader_throws:
  assumes "gs ''lightVert'' ''lightTextureFrag'' = Inl e"
  shows "registerLight t gs col r args = Inl (e, r)"
  using assms
  by (cases t)
     (simp_all add: ambientLight_shader_throws directionalLight_shader_throws pointLight_shader_throws)

lemma registerLight_color_throws:
  assumes gs: "gs ''lightVert'' ''lightTextureFrag'' = Inr p"
    and col: "col (colorArguments t args) = Inl e"
  shows "\<exists>r'. registerLight t gs col r args = Inl (e, r') \<and>
     uniformValues (GL r') = uniformValues (GL r) \<and>
     callLog (GL r') = callLog (GL r) @
       [UseProgram p, GetUniformLocation p (indexed (colorUniform t) (lightCount t r))] \<and>
     currentProgram (GL r') = Some p \<and>
     (\<forall>t'. lightCount t' r' = lightCount t' r)"
proof (cases t)
  case Ambient
  from ambientLight_color_throws[where gs = gs and col = col and args = args and r = r, OF gs col[unfolded Ambient colorArguments.simps]]
  show ?thesis unfolding Ambient by (auto intro: lightCount_cases)
next
  case Directional
  from directionalLight_color_throws[where gs = gs and col = col and args = args and r = r, OF gs col[unfolded Directional]]
  show ?thesis unfolding Directional by (auto intro: lightCount_cases)
next
  case Point
  from pointLight_color_throws[where gs = gs and col = col and args = args and r = r, OF gs col[unfolded Point]]
  show ?thesis unfolding Point by (auto intro: lightCount_cases)
qed

lemma registerLight_vector_throws:
  assumes gs: "gs ''lightVert'' ''lightTextureFrag'' = Inr p"
    and col: "col (colorArguments t args) = Inr c"
    and t: "t \<noteq> Ambient" and tail: "\<not> usableTail args"
  shows "\<exists>r'. registerLight t gs col r args = Inl (TypeError, r') \<and>
     uniformValues (GL r') = (uniformValues (GL r))
       ((p, indexed (colorUniform t) (lightCount t r)) \<mapsto> rgb c) \<and>
     callLog (GL r') = callLog (GL r) @
       [UseProgram p, GetUniformLocation p (indexed (colorUniform t) (lightCount t r)),
        Uniform3f (p, indexed (colorUniform t) (lightCount t r))
          (js_index c 0) (js_index c 1) (js_index c 2)] \<and>
     currentProgram (GL r') = Some p \<and>
     (\<forall>t'. lightCount t' r' = lightCount t' r)"
proof -
  from tail have v: "trailingVector args = Inl TypeError"
    by (simp add: trailingVector_Inl_iff)
  show ?thesis
  proof (cases t)
    case Ambient
    with t show ?thesis by simp
  next
    case Directional
    from directionalLight_throws[where gs = gs and col = col and args = args and r = r, OF gs col[unfolded Directional] v]
    show ?thesis unfolding Directional by (auto intro: lightCount_cases)
  next
    case Point
    from pointLight_throws[where gs = gs and col = col and args = args and r = r, OF gs col[unfolded Point] v]
    show ?thesis unfolding Point by (auto intro: lightCount_cases)
  qed
qed

lemma registerLight_returns:
  assumes gs: "gs ''lightVert'' ''lightTextureFrag'' = Inr p"
    and col: "col (colorArguments t args) = Inr c"
    and tail: "t = Ambient \<or> usableTail args"
  shows "\<exists>r'. registerLight t gs col r args = Inr r' \<and>
    lightCount t r' = lightCount t r + 1 \<and>
    (\<forall>t'. t' \<noteq> t \<longrightarrow> lightCount t' r' = lightCount t' r) \<and>
    currentProgram (GL r') = Some p \<and>
    uniformValues (GL r') (p, indexed (colorUniform t) (lightCount t r)) = Some (rgb c) \<and>
    uniformValues (GL r') (p, ''uMaterialColor'') = Some white \<and>
    uniformValues (GL r') (p, countUniform t) = Some (Int1 (JNum (real (lightCount t r + 1)))) \<and>
    (\<forall>g. geometryUniform t = Some g \<longrightarrow>
       (\<exists>x y z. trailingVector args = Inr (x, y, z) \<and>
          uniformValues (GL r') (p, indexed g (lightCount t r)) = Some (Float3 x y z))) \<and>
    (\<forall>i q. i \<noteq> lightCount t r \<longrightarrow>
       uniformValues (GL r') (q, indexed (colorUniform t) i) =
       uniformValues (GL r) (q, indexed (colorUniform t) i)) \<and>
    (\<forall>g i q. geometryUniform t = Some g \<longrightarrow> i \<noteq> lightCount t r \<longrightarrow>
       uniformValues (GL r') (q, indexed g i) = uniformValues (GL r) (q, indexed g i)) \<and>
    (\<exists>rest. callLog (GL r') = callLog (GL r) @ UseProgram p # rest \<and> rest \<noteq> [] \<and>
       list_all (uniformCallOf p) rest)"
proof (cases t)
  case Ambient
  from ambientLight_returns[where gs = gs and col = col and args = args and r = r, OF gs col[unfolded Ambient colorArguments.simps]]
  obtain r' where r': "ambientLight gs col r args = Inr r'"
    and u: "uniformValues (GL r') = (uniformValues (GL r))
       ((p, indexed ''uAmbientColor'' (ambientLightCount r)) \<mapsto> rgb c,
        (p, ''uMaterialColor'') \<mapsto> white,
        (p, ''uAmbientLightCount'') \<mapsto> Int1 (JNum (real (ambientLightCount r + 1))))"
    and l: "\<exists>rest. callLog (GL r') = callLog (GL r) @ UseProgram p # rest \<and> rest \<noteq> [] \<and>
       list_all (uniformCallOf p) rest"
    and f: "currentProgram (GL r') = Some p"
       "ambientLightCount r' = ambientLightCount r + 1"
       "directionalLightCount r' = directionalLightCount r"
       "pointLightCount r' = pointLightCount r"
    by auto
  have "t' \<noteq> Ambient \<Longrightarrow> lightCount t' r' = lightCount t' r" for t'
    by (cases t') (simp_all add: f)
  then show ?thesis unfolding Ambient using l
    by (simp add: r' u f name_simps)
next
  case Directional
  with tail have "usableTail args" by simp
  from trailingVector_usable[OF this] obtain x y z where v: "trailingVector args = Inr (x, y, z)"
    by blast
  from directionalLight_returns[where gs = gs and col = col and args = args and r = r, OF gs col[unfolded Directional] v]
  obtain r' where r': "directionalLight gs col r args = Inr r'"
    and u: "uniformValues (GL r') = (uniformValues (GL r))
       ((p, indexed ''uDirectionalColor'' (directionalLightCount r)) \<mapsto> rgb c,
        (p, indexed ''uLightingDirection'' (directionalLightCount r)) \<mapsto> Float3 x y z,
        (p, ''uMaterialColor'') \<mapsto> white,
        (p, ''uDirectionalLightCount'') \<mapsto> Int1 (JNum (real (directionalLightCount r + 1))))"
    and l: "\<exists>rest. callLog (GL r') = callLog (GL r) @ UseProgram p # rest \<and> rest \<noteq> [] \<and>
       list_all (uniformCallOf p) rest"
    and f: "currentProgram (GL r') = Some p"
       "ambientLightCount r' = ambientLightCount r"
       "directionalLightCount r' = directionalLightCount r + 1"
       "pointLightCount r' = pointLightCount r"
    by auto
  have "t' \<noteq> Directional \<Longrightarrow> lightCount t' r' = lightCount t' r" for t'
    by (cases t') (simp_all add: f)
  then show ?thesis unfolding Directional using l
    by (simp add: r' u f name_simps v)
next
  case Point
  with tail have "usableTail args" by simp
  from trailingVector_usable[OF this] obtain x y z where v: "trailingVector args = Inr (x, y, z)"
    by blast
  from pointLight_returns[where gs = gs and col = col and args = args and r = r, OF gs col[unfolded Point] v]
  obtain r' where r': "pointLight gs col r args = Inr r'"
    and u: "uniformValues (GL r') = (uniformValues (GL r))
       ((p, indexed ''uPointLightColor'' (pointLightCount r)) \<mapsto> rgb c,
        (p, indexed ''uPointLightLocation'' (pointLightCount r)) \<mapsto> Float3 x y z,
        (p, ''uMaterialColor'') \<mapsto> white,
        (p, ''uPointLightCount'') \<mapsto> Int1 (JNum (real (pointLightCount r + 1))))"
    and l: "\<exists>rest. callLog (GL r') = callLog (GL r) @ UseProgram p # rest \<and> rest \<noteq> [] \<and>
       list_all (uniformCallOf p) rest"
    and f: "currentProgram (GL r') = Some p"
       "ambientLightCount r' = ambientLightCount r"
       "directionalLightCount r' = directionalLightCount r"
       "pointLightCount r' = pointLightCount r + 1"
    by auto
  have "t' \<noteq> Point \<Longrightarrow> lightCount t' r' = lightCount t' r" for t'
    by (cases t') (simp_all add: f)
  then show ?thesis unfolding Point using l
    by (simp add: r' u f name_simps v)
qed

text \<open>The four ways a call can end.\<close>

lemma registerLight_ends:
  obtains e where "gs ''lightVert'' ''lightTextureFrag'' = Inl e"
  | p e where "gs ''lightVert'' ''lightTextureFrag'' = Inr p" and "col (colorArguments t args) = Inl e"
  | p c where "gs ''lightVert'' ''lightTextureFrag'' = Inr p" and "col (colorArguments t args) = Inr c"
      and "t \<noteq> Ambient" and "\<not> usableTail args"
  | p c where "gs ''lightVert'' ''lightTextureFrag'' = Inr p" and "col (colorArguments t args) = Inr c"
      and "t = Ambient \<or> usableTail args"
  by (cases "gs ''lightVert'' ''lightTextureFrag''"; cases "col (colorArguments t args)") blast+

lemma registerLight_Inr_sources:
  assumes "registerLight t gs col r args = Inr r'"
  shows "\<exists>p c. gs ''lightVert'' ''lightTextureFrag'' = Inr p \<and> col (colorArguments t args) = Inr c \<and>
           (t = Ambient \<or> usableTail args)"
proof (cases rule: registerLight_ends[where gs = gs and col = col and t = t and args = args])
  case (1 e)
  from registerLight_shader_throws[where gs = gs and t = t and col = col and r = r and args = args, OF this] assms show ?thesis by simp
next
  case (2 p e)
  from registerLight_color_throws[where gs = gs and t = t and col = col and r = r and args = args, OF this] assms show ?thesis by auto
next
  case (3 p c)
  from registerLight_vector_throws[where gs = gs and t = t and col = col and r = r and args = args, OF this] assms show ?thesis by auto
next
  case (4 p c)
  then show ?thesis by blast
qed

lemma registerLight_Inl_counts:
  assumes "registerLight t gs col r args = Inl (e, r')"
  shows "lightCount t' r' = lightCount t' r"
proof (cases rule: registerLight_ends[where gs = gs and col = col and t = t and args = args])
  case (1 e)
  from registerLight_shader_throws[where gs = gs and t = t and col = col and r = r and args = args, OF this] assms show ?thesis by simp
next
  case (2 p e)
  from registerLight_color_throws[where gs = gs and t = t and col = col and r = r and args = args, OF this] assms show ?thesis by auto
next
  case (3 p c)
  from registerLight_vector_throws[where gs = gs and t = t and col = col and r = r and args = args, OF this] assms show ?thesis by auto
next
  case (4 p c)
  from registerLight_returns[where gs = gs and t = t and col = col and r = r and args = args, OF this] assms show ?thesis by auto
qed

lemma registerLight_callLog:
  assumes gs: "gs ''lightVert'' ''lightTextureFrag'' = Inr p"
  shows "\<exists>rest. callLog (GL (outcome (registerLight t gs col r args))) =
      callLog (GL r) @ UseProgram p # rest \<and>
      rest \<noteq> [] \<and> list_all (uniformCallOf p) rest \<and>
      currentProgram (GL (outcome (registerLight t gs col r args))) = Some p"
proof (cases rule: registerLight_ends[where gs = gs and col = col and t = t and args = args])
  case (1 e)
  with gs show ?thesis by simp
next
  case (2 q e)
  with gs have "col (colorArguments t args) = Inl e" by simp
  from registerLight_color_throws[where gs = gs and t = t and col = col and r = r and args = args, OF gs this] show ?thesis by auto
next
  case (3 q c)
  with gs have "col (colorArguments t args) = Inr c" by simp
  from registerLight_vector_throws[where gs = gs and t = t and col = col and r = r and args = args, OF gs this 3(3,4)] show ?thesis by auto
next
  case (4 q c)
  with gs have "col (colorArguments t args) = Inr c" by simp
  from registerLight_returns[where gs = gs and t = t and col = col and r = r and args = args, OF gs this 4(3)] show ?thesis by auto
qed

lemma registerLight_color_written:
  assumes gs: "gs ''lightVert'' ''lightTextureFrag'' = Inr p"
    and col: "col (colorArguments t args) = Inr c"
  shows "uniformValues (GL (outcome (registerLight t gs col r args)))
           (p, indexed (colorUniform t) (lightCount t r)) = Some (rgb c)"
proof (cases "t = Ambient \<or> usableTail args")
  case True
  from registerLight_returns[where gs = gs and t = t and col = col and r = r and args = args, OF gs col True] show ?thesis by auto
next
  case False
  then have "t \<noteq> Ambient" "\<not> usableTail args" by simp_all
  from registerLight_vector_throws[where gs = gs and t = t and col = col and r = r and args = args, OF gs col this] show ?thesis by auto
qed


lemma registerLight_Inr_all:
  assumes ok: "registerLight t gs col r args = Inr r'"
    and gs: "gs ''lightVert'' ''lightTextureFrag'' = Inr p"
    and col: "col (colorArguments t args) = Inr c"
  shows "lightCount t r' = lightCount t r + 1 \<and>
    (\<forall>t'. t' \<noteq> t \<longrightarrow> lightCount t' r' = lightCount t' r) \<and>
    currentProgram (GL r') = Some p \<and>
    uniformValues (GL r') (p, indexed (colorUniform t) (lightCount t r)) = Some (rgb c) \<and>
    uniformValues (GL r') (p, ''uMaterialColor'') = Some white \<and>
    uniformValues (GL r') (p, countUniform t) = Some (Int1 (JNum (real (lightCount t r + 1)))) \<and>
    (\<forall>g. geometryUniform t = Some g \<longrightarrow>
       (\<exists>x y z. trailingVector args = Inr (x, y, z) \<and>
          uniformValues (GL r') (p, indexed g (lightCount t r)) = Some (Float3 x y z))) \<and>
    (\<forall>i q. i \<noteq> lightCount t r \<longrightarrow>
       uniformValues (GL r') (q, indexed (colorUniform t) i) =
       uniformValues (GL r) (q, indexed (colorUniform t) i)) \<and>
    (\<forall>g i q. geometryUniform t = Some g \<longrightarrow> i \<noteq> lightCount t r \<longrightarrow>
       uniformValues (GL r') (q, indexed g i) = uniformValues (GL r) (q, indexed g i))"
proof -
  from registerLight_Inr_sources[OF ok] have tail: "t = Ambient \<or> usableTail args" by blast
  from registerLight_returns[where gs = gs and t = t and col = col and r = r and args = args,
      OF gs col tail] ok
  show ?thesis by auto
qed

lemma registerLight_Inr_outcome:
  assumes "gs ''lightVert'' ''lightTextureFrag'' = Inr p"
    and "col (colorArguments t args) = Inr c"
    and "t = Ambient \<or> usableTail args"
  shows "registerLight t gs col r args = Inr (outcome (registerLight t gs col r args))"
  using registerLight_returns[where gs = gs and col = col and t = t and r = r and args = args,
      OF assms]
  by auto

lemma registerLight_returns_iff:
  "(\<exists>r'. registerLight t gs col r args = Inr r') \<longleftrightarrow>
     (\<exists>p. gs ''lightVert'' ''lightTextureFrag'' = Inr p) \<and>
     (\<exists>c. col (colorArguments t args) = Inr c) \<and>
     (t = Ambient \<or> usableTail args)"
proof
  assume "\<exists>r'. registerLight t gs col r args = Inr r'"
  then obtain r' where "registerLight t gs col r args = Inr r'" by blast
  from registerLight_Inr_sources[OF this] show
    "(\<exists>p. gs ''lightVert'' ''lightTextureFrag'' = Inr p) \<and>
     (\<exists>c. col (colorArguments t args) = Inr c) \<and> (t = Ambient \<or> usableTail args)"
    by blast
next
  assume "(\<exists>p. gs ''lightVert'' ''lightTextureFrag'' = Inr p) \<and>
     (\<exists>c. col (colorArguments t args) = Inr c) \<and> (t = Ambient \<or> usableTail args)"
  then obtain p c where gs: "gs ''lightVert'' ''lightTextureFrag'' = Inr p"
    and col: "col (colorArguments t args) = Inr c" and tail: "t = Ambient \<or> usableTail args"
    by blast
  from registerLight_returns[where gs = gs and t = t and col = col and r = r and args = args,
      OF gs col tail]
  show "\<exists>r'. registerLight t gs col r args = Inr r'" by blast
qed

lemma registerLight_color_cong:
  assumes "col (colorArguments t args) = Inr c" and "col' (colorArguments t args) = Inr c'"
    and "js_index c 0 = js_index c' 0" and "js_index c 1 = js_index c' 1"
    and "js_index c 2 = js_index c' 2"
  shows "registerLight t gs col r args = registerLight t gs col' r args"
proof (cases t)
  case Ambient
  note a = assms(1,2)[unfolded Ambient colorArguments.simps]
  show ?thesis
    unfolding Ambient registerLight.simps ambientLight_def Let_def a sum.case assms(3-5) ..
next
  case Directional
  note a = assms(1,2)[unfolded Directional colorArguments.simps]
  show ?thesis
    unfolding Directional registerLight.simps directionalLight_def Let_def a sum.case assms(3-5) ..
next
  case Point
  note a = assms(1,2)[unfolded Point colorArguments.simps]
  show ?thesis
    unfolding Point registerLight.simps pointLight_def Let_def a sum.case assms(3-5) ..
qed

section \<open>What a sequence of calls does\<close>

lemma registerLights_snoc:
  "registerLights t gs col r (argss @ [args]) =
     (case registerLights t gs col r argss of
        Inl e \<Rightarrow> Inl e
      | Inr r1 \<Rightarrow> registerLight t gs col r1 args)"
  by (induction argss arbitrary: r) (auto split: sum.splits)

lemma registerLights_from:
  assumes "registerLights t gs col r argss = Inr r'"
    and gs: "gs ''lightVert'' ''lightTextureFrag'' = Inr p"
  shows "lightCount t r' = lightCount t r + length argss \<and>
    (argss \<noteq> [] \<longrightarrow>
       uniformValues (GL r') (p, countUniform t) =
         Some (Int1 (JNum (real (lightCount t r + length argss))))) \<and>
    (\<forall>i<length argss. \<exists>c. col (colorArguments t (argss ! i)) = Inr c \<and>
       uniformValues (GL r') (p, indexed (colorUniform t) (lightCount t r + i)) = Some (rgb c)) \<and>
    (\<forall>g. geometryUniform t = Some g \<longrightarrow>
       (\<forall>i<length argss. \<exists>x y z. trailingVector (argss ! i) = Inr (x, y, z) \<and>
          uniformValues (GL r') (p, indexed g (lightCount t r + i)) = Some (Float3 x y z)))"
  using assms(1)
proof (induction argss arbitrary: r' rule: rev_induct)
  case Nil
  then show ?case by simp
next
  case (snoc args argss)
  from snoc.prems obtain r1 where r1: "registerLights t gs col r argss = Inr r1"
    and step: "registerLight t gs col r1 args = Inr r'"
    by (auto simp: registerLights_snoc split: sum.splits)
  note IH = snoc.IH[OF r1]
  from registerLight_Inr_sources[OF step] gs obtain c
    where c: "col (colorArguments t args) = Inr c" by auto
  note S = registerLight_Inr_all[OF step gs c]
  have c1: "lightCount t r1 = lightCount t r + length argss" using IH by blast
  have count: "lightCount t r' = lightCount t r + length (argss @ [args])"
    using S c1 by simp
  have cu: "uniformValues (GL r') (p, countUniform t) =
         Some (Int1 (JNum (real (lightCount t r + length (argss @ [args])))))"
    using S c1 by simp
  have col: "\<exists>c. col (colorArguments t ((argss @ [args]) ! i)) = Inr c \<and>
      uniformValues (GL r') (p, indexed (colorUniform t) (lightCount t r + i)) = Some (rgb c)"
    if i: "i < length (argss @ [args])" for i
  proof (cases "i < length argss")
    case True
    then have "lightCount t r + i \<noteq> lightCount t r1" using c1 by simp
    with S have "uniformValues (GL r') (p, indexed (colorUniform t) (lightCount t r + i)) =
      uniformValues (GL r1) (p, indexed (colorUniform t) (lightCount t r + i))"
      by blast
    moreover from IH True obtain d where "col (colorArguments t (argss ! i)) = Inr d"
      and "uniformValues (GL r1) (p, indexed (colorUniform t) (lightCount t r + i)) = Some (rgb d)"
      by blast
    ultimately show ?thesis using True by (simp add: nth_append)
  next
    case False
    with i have "i = length argss" by simp
    then show ?thesis using S c c1 by (simp add: nth_append)
  qed
  have geo: "\<exists>x y z. trailingVector ((argss @ [args]) ! i) = Inr (x, y, z) \<and>
          uniformValues (GL r') (p, indexed g (lightCount t r + i)) = Some (Float3 x y z)"
    if g: "geometryUniform t = Some g" and i: "i < length (argss @ [args])" for g i
  proof (cases "i < length argss")
    case True
    then have "lightCount t r + i \<noteq> lightCount t r1" using c1 by simp
    with S g have "uniformValues (GL r') (p, indexed g (lightCount t r + i)) =
      uniformValues (GL r1) (p, indexed g (lightCount t r + i))"
      by blast
    moreover from IH g True obtain x y z where "trailingVector (argss ! i) = Inr (x, y, z)"
      and "uniformValues (GL r1) (p, indexed g (lightCount t r + i)) = Some (Float3 x y z)"
      by blast
    ultimately show ?thesis using True by (simp add: nth_append)
  next
    case False
    with i have e: "i = length argss" by simp
    from S g obtain x y z where "trailingVector args = Inr (x, y, z)"
      and "uniformValues (GL r') (p, indexed g (lightCount t r1)) = Some (Float3 x y z)"
      by blast
    then show ?thesis using e c1 by (simp add: nth_append)
  qed
  show ?case using count cu col geo by blast
qed

lemma registerLights_returns:
  assumes gs: "gs ''lightVert'' ''lightTextureFrag'' = Inr p"
    and "\<forall>args \<in> set argss. (\<exists>c. col (colorArguments t args) = Inr c) \<and> (t = Ambient \<or> usableTail args)"
  shows "\<exists>r'. registerLights t gs col r argss = Inr r'"
  using assms(2)
proof (induction argss arbitrary: r)
  case Nil
  then show ?case by simp
next
  case (Cons a argss)
  then have "(\<exists>p. gs ''lightVert'' ''lightTextureFrag'' = Inr p) \<and>
     (\<exists>c. col (colorArguments t a) = Inr c) \<and> (t = Ambient \<or> usableTail a)"
    using gs by auto
  then obtain r1 where r1: "registerLight t gs col r a = Inr r1"
    using registerLight_returns_iff[of t gs col r a] by blast
  from Cons have "\<forall>args \<in> set argss. (\<exists>c. col (colorArguments t args) = Inr c) \<and>
      (t = Ambient \<or> usableTail args)"
    by auto
  from Cons.IH[OF this, of r1] r1 show ?case by simp
qed

section \<open>The claims about the light functions\<close>

text \<open>
  C1.  Take any sequence of calls of one light function in a frame that starts with the
  counter of that type at 0, and any number \<open>k\<close> of its first calls, where the registry
  returns the lighting program, the colour resolver returns for the arguments of each of
  these calls and, for the two types that read a vector, each call has a last argument
  the vector can be read from.  Then these \<open>k\<close> calls all return.  Right after the
  \<open>k\<close>-th call the counter is \<open>k\<close>, the count uniform of the type holds \<open>k\<close>, and for every
  \<open>i < k\<close> the element \<open>i\<close> of the colour array (and of the geometry array, for the two
  types that have one) holds what the call number \<open>i + 1\<close> wrote: each call names its
  slots by the counter before the increment, and writes the count after it.
\<close>

theorem slots_follow_call_order:
  assumes "lightCount t r = 0"
    and "k \<le> length argss"
    and "getShader ''lightVert'' ''lightTextureFrag'' = Inr p"
    and "\<forall>arguments \<in> set (take k argss).
           (\<exists>c. color (colorArguments t arguments) = Inr c) \<and> (t = Ambient \<or> usableTail arguments)"
  shows "\<exists>rk. registerLights t getShader color r (take k argss) = Inr rk \<and>
    lightCount t rk = k \<and>
    (0 < k \<longrightarrow> uniformValues (GL rk) (p, countUniform t) = Some (Int1 (JNum (real k)))) \<and>
    (\<forall>i<k. \<exists>c. color (colorArguments t (argss ! i)) = Inr c \<and>
       uniformValues (GL rk) (p, indexed (colorUniform t) i) =
         Some (Float3 (js_index c 0) (js_index c 1) (js_index c 2))) \<and>
    (\<forall>g. geometryUniform t = Some g \<longrightarrow>
       (\<forall>i<k. \<exists>x y z. trailingVector (argss ! i) = Inr (x, y, z) \<and>
          uniformValues (GL rk) (p, indexed g i) = Some (Float3 x y z)))"
proof -
  from registerLights_returns[where gs = getShader and col = color and t = t and r = r
      and argss = "take k argss", OF assms(3,4)]
  obtain rk where rk: "registerLights t getShader color r (take k argss) = Inr rk" by blast
  have l: "length (take k argss) = k" using assms(2) by simp
  have n: "i < k \<Longrightarrow> take k argss ! i = argss ! i" for i by simp
  have e: "take k argss \<noteq> [] \<longleftrightarrow> 0 < k" using l by auto
  from registerLights_from[where gs = getShader and col = color, OF rk assms(3),
      unfolded l assms(1) e] n rk
  show ?thesis by (simp add: rgb_def)
qed

theorem slots_follow_call_order_witness:
  "lightCount Ambient newRenderer = 0 \<and>
   lightCount Directional newRenderer = 0 \<and>
   lightCount Point newRenderer = 0 \<and>
   namedProgram ''lightVert'' ''lightTextureFrag'' = Inr (''lightVert'', ''lightTextureFrag'') \<and>
   registerLights Ambient namedProgram sampleColor newRenderer (take 2 sampleAmbientCalls) =
     Inr (outcome (registerLights Ambient namedProgram sampleColor newRenderer sampleAmbientCalls)) \<and>
   lightCount Ambient (outcome (registerLights Ambient namedProgram sampleColor newRenderer sampleAmbientCalls)) = 2 \<and>
   uniformValues (GL (outcome (registerLights Ambient namedProgram sampleColor newRenderer sampleAmbientCalls)))
     ((''lightVert'', ''lightTextureFrag''), ''uAmbientLightCount'') = Some (Int1 (JNum 2)) \<and>
   uniformValues (GL (outcome (registerLights Ambient namedProgram sampleColor newRenderer sampleAmbientCalls)))
     ((''lightVert'', ''lightTextureFrag''), ''uAmbientColor[0]'') = Some (Float3 (JNum 150) (JNum 150) (JNum 150)) \<and>
   uniformValues (GL (outcome (registerLights Ambient namedProgram sampleColor newRenderer sampleAmbientCalls)))
     ((''lightVert'', ''lightTextureFrag''), ''uAmbientColor[1]'') = Some (Float3 (JNum 10) (JNum 20) (JNum 30)) \<and>
   registerLights Directional namedProgram sampleColor newRenderer (take 2 sampleDirectionalCalls) =
     Inr (outcome (registerLights Directional namedProgram sampleColor newRenderer sampleDirectionalCalls)) \<and>
   lightCount Directional (outcome (registerLights Directional namedProgram sampleColor newRenderer sampleDirectionalCalls)) = 2 \<and>
   uniformValues (GL (outcome (registerLights Directional namedProgram sampleColor newRenderer sampleDirectionalCalls)))
     ((''lightVert'', ''lightTextureFrag''), ''uDirectionalLightCount'') = Some (Int1 (JNum 2)) \<and>
   uniformValues (GL (outcome (registerLights Directional namedProgram sampleColor newRenderer sampleDirectionalCalls)))
     ((''lightVert'', ''lightTextureFrag''), ''uDirectionalColor[0]'') = Some (Float3 (JNum 250) (JNum 250) (JNum 250)) \<and>
   uniformValues (GL (outcome (registerLights Directional namedProgram sampleColor newRenderer sampleDirectionalCalls)))
     ((''lightVert'', ''lightTextureFrag''), ''uDirectionalColor[1]'') = Some (Float3 (JNum 10) (JNum 20) (JNum 30)) \<and>
   uniformValues (GL (outcome (registerLights Directional namedProgram sampleColor newRenderer sampleDirectionalCalls)))
     ((''lightVert'', ''lightTextureFrag''), ''uLightingDirection[0]'') = Some (Float3 (JNum 0.5) (JNum (- 0.5)) (JNum 0.25)) \<and>
   uniformValues (GL (outcome (registerLights Directional namedProgram sampleColor newRenderer sampleDirectionalCalls)))
     ((''lightVert'', ''lightTextureFrag''), ''uLightingDirection[1]'') = Some (Float3 (JNum 1) (JNum 2) (JNum 3)) \<and>
   registerLights Point namedProgram sampleColor newRenderer (take 2 samplePointCalls) =
     Inr (outcome (registerLights Point namedProgram sampleColor newRenderer samplePointCalls)) \<and>
   lightCount Point (outcome (registerLights Point namedProgram sampleColor newRenderer samplePointCalls)) = 2 \<and>
   uniformValues (GL (outcome (registerLights Point namedProgram sampleColor newRenderer samplePointCalls)))
     ((''lightVert'', ''lightTextureFrag''), ''uPointLightCount'') = Some (Int1 (JNum 2)) \<and>
   uniformValues (GL (outcome (registerLights Point namedProgram sampleColor newRenderer samplePointCalls)))
     ((''lightVert'', ''lightTextureFrag''), ''uPointLightColor[0]'') = Some (Float3 (JNum 250) (JNum 250) (JNum 250)) \<and>
   uniformValues (GL (outcome (registerLights Point namedProgram sampleColor newRenderer samplePointCalls)))
     ((''lightVert'', ''lightTextureFrag''), ''uPointLightColor[1]'') = Some (Float3 (JNum 40) (JNum 50) (JNum 60)) \<and>
   uniformValues (GL (outcome (registerLights Point namedProgram sampleColor newRenderer samplePointCalls)))
     ((''lightVert'', ''lightTextureFrag''), ''uPointLightLocation[0]'') = Some (Float3 (JNum 1) (JNum 2) (JNum 3)) \<and>
   uniformValues (GL (outcome (registerLights Point namedProgram sampleColor newRenderer samplePointCalls)))
     ((''lightVert'', ''lightTextureFrag''), ''uPointLightLocation[1]'') = Some (Float3 (JNum 0) (JNum 0) (JNum 0))"
proof -
  have hp: "namedProgram ''lightVert'' ''lightTextureFrag'' = Inr (''lightVert'', ''lightTextureFrag'')"
    by (simp add: namedProgram_def)
  have A: "registerLights Ambient namedProgram sampleColor newRenderer (take 2 sampleAmbientCalls) =
     Inr (outcome (registerLights Ambient namedProgram sampleColor newRenderer sampleAmbientCalls)) \<and>
   lightCount Ambient (outcome (registerLights Ambient namedProgram sampleColor newRenderer sampleAmbientCalls)) = 2 \<and>
   uniformValues (GL (outcome (registerLights Ambient namedProgram sampleColor newRenderer sampleAmbientCalls)))
     ((''lightVert'', ''lightTextureFrag''), ''uAmbientLightCount'') = Some (Int1 (JNum 2)) \<and>
   uniformValues (GL (outcome (registerLights Ambient namedProgram sampleColor newRenderer sampleAmbientCalls)))
     ((''lightVert'', ''lightTextureFrag''), ''uAmbientColor[0]'') = Some (Float3 (JNum 150) (JNum 150) (JNum 150)) \<and>
   uniformValues (GL (outcome (registerLights Ambient namedProgram sampleColor newRenderer sampleAmbientCalls)))
     ((''lightVert'', ''lightTextureFrag''), ''uAmbientColor[1]'') = Some (Float3 (JNum 10) (JNum 20) (JNum 30))"
  proof -
    let ?R = "outcome (registerLights Ambient namedProgram sampleColor newRenderer sampleAmbientCalls)"
    have h0: "lightCount Ambient newRenderer = 0" by (simp add: newRenderer_def)
    have h1: "(2::nat) \<le> length sampleAmbientCalls" by (simp add: sampleAmbientCalls_def)
    have tk: "take 2 sampleAmbientCalls = sampleAmbientCalls" by (simp add: sampleAmbientCalls_def)
    have a0: "sampleAmbientCalls ! 0 = [JNum 150]"
      and a1: "sampleAmbientCalls ! 1 = [JNum 10, JNum 20, JNum 30]"
      by (simp_all add: sampleAmbientCalls_def)
    have hB: "\<forall>arguments \<in> set (take 2 sampleAmbientCalls).
        (\<exists>c. sampleColor (colorArguments Ambient arguments) = Inr c) \<and> (Ambient = Ambient \<or> usableTail arguments)"
      by (simp add: sampleAmbientCalls_def sampleColor_def usableTail_def)
    from slots_follow_call_order[where getShader = namedProgram and color = sampleColor
        and r = newRenderer, OF h0 h1 hp hB]
    obtain rk where T: "registerLights Ambient namedProgram sampleColor newRenderer (take 2 sampleAmbientCalls) = Inr rk \<and>
      lightCount Ambient rk = 2 \<and>
      (0 < (2::nat) \<longrightarrow> uniformValues (GL rk) ((''lightVert'', ''lightTextureFrag''), countUniform Ambient) =
                 Some (Int1 (JNum (real (2::nat))))) \<and>
      (\<forall>i<2. \<exists>c. sampleColor (colorArguments Ambient (sampleAmbientCalls ! i)) = Inr c \<and>
         uniformValues (GL rk) ((''lightVert'', ''lightTextureFrag''), indexed (colorUniform Ambient) i) =
           Some (Float3 (js_index c 0) (js_index c 1) (js_index c 2))) \<and>
      (\<forall>g. geometryUniform Ambient = Some g \<longrightarrow>
         (\<forall>i<2. \<exists>x y z. trailingVector (sampleAmbientCalls ! i) = Inr (x, y, z) \<and>
           uniformValues (GL rk) ((''lightVert'', ''lightTextureFrag''), indexed g i) = Some (Float3 x y z)))"
      by (rule exE)
    note rk = T[THEN conjunct1]
    note cnt = T[THEN conjunct2, THEN conjunct1]
    have cu: "uniformValues (GL rk) ((''lightVert'', ''lightTextureFrag''), countUniform Ambient) =
                 Some (Int1 (JNum (real (2::nat))))"
      using T[THEN conjunct2, THEN conjunct2, THEN conjunct1] by simp
    note C = T[THEN conjunct2, THEN conjunct2, THEN conjunct2, THEN conjunct1, rule_format]
    note G = T[THEN conjunct2, THEN conjunct2, THEN conjunct2, THEN conjunct2, rule_format]
    have R: "?R = rk" using rk unfolding tk by simp
    have i0: "(0::nat) < 2" and i1: "(1::nat) < 2" by simp_all
    have c0: "uniformValues (GL rk) ((''lightVert'', ''lightTextureFrag''), ''uAmbientColor[0]'') =
        Some (rgb (resolveColor (colorArguments Ambient ([JNum 150]))))"
      using C[OF i0] unfolding a0 by (auto simp: sampleColor_def indexed_0 rgb_def)
    have c1: "uniformValues (GL rk) ((''lightVert'', ''lightTextureFrag''), ''uAmbientColor[1]'') =
        Some (rgb (resolveColor (colorArguments Ambient ([JNum 10, JNum 20, JNum 30]))))"
      using C[OF i1] unfolding a1 by (auto simp: sampleColor_def indexed_1 rgb_def)
    show ?thesis
      unfolding R using rk cnt cu c0 c1
      by (simp add: rgb_def resolveColor_def js_index_def)
  qed
  have D: "registerLights Directional namedProgram sampleColor newRenderer (take 2 sampleDirectionalCalls) =
     Inr (outcome (registerLights Directional namedProgram sampleColor newRenderer sampleDirectionalCalls)) \<and>
   lightCount Directional (outcome (registerLights Directional namedProgram sampleColor newRenderer sampleDirectionalCalls)) = 2 \<and>
   uniformValues (GL (outcome (registerLights Directional namedProgram sampleColor newRenderer sampleDirectionalCalls)))
     ((''lightVert'', ''lightTextureFrag''), ''uDirectionalLightCount'') = Some (Int1 (JNum 2)) \<and>
   uniformValues (GL (outcome (registerLights Directional namedProgram sampleColor newRenderer sampleDirectionalCalls)))
     ((''lightVert'', ''lightTextureFrag''), ''uDirectionalColor[0]'') = Some (Float3 (JNum 250) (JNum 250) (JNum 250)) \<and>
   uniformValues (GL (outcome (registerLights Directional namedProgram sampleColor newRenderer sampleDirectionalCalls)))
     ((''lightVert'', ''lightTextureFrag''), ''uDirectionalColor[1]'') = Some (Float3 (JNum 10) (JNum 20) (JNum 30)) \<and>
   uniformValues (GL (outcome (registerLights Directional namedProgram sampleColor newRenderer sampleDirectionalCalls)))
     ((''lightVert'', ''lightTextureFrag''), ''uLightingDirection[0]'') = Some (Float3 (JNum 0.5) (JNum (- 0.5)) (JNum 0.25)) \<and>
   uniformValues (GL (outcome (registerLights Directional namedProgram sampleColor newRenderer sampleDirectionalCalls)))
     ((''lightVert'', ''lightTextureFrag''), ''uLightingDirection[1]'') = Some (Float3 (JNum 1) (JNum 2) (JNum 3))"
  proof -
    let ?R = "outcome (registerLights Directional namedProgram sampleColor newRenderer sampleDirectionalCalls)"
    have h0: "lightCount Directional newRenderer = 0" by (simp add: newRenderer_def)
    have h1: "(2::nat) \<le> length sampleDirectionalCalls" by (simp add: sampleDirectionalCalls_def)
    have tk: "take 2 sampleDirectionalCalls = sampleDirectionalCalls" by (simp add: sampleDirectionalCalls_def)
    have a0: "sampleDirectionalCalls ! 0 = [JNum 250, JNum 250, JNum 250, JNum 0.5, JNum (- 0.5), JNum 0.25]"
      and a1: "sampleDirectionalCalls ! 1 = [JNum 10, JNum 20, JNum 30, JObj [(''x'', JNum 1), (''y'', JNum 2), (''z'', JNum 3)]]"
      by (simp_all add: sampleDirectionalCalls_def)
    have hB: "\<forall>arguments \<in> set (take 2 sampleDirectionalCalls).
        (\<exists>c. sampleColor (colorArguments Directional arguments) = Inr c) \<and> (Directional = Ambient \<or> usableTail arguments)"
      by (simp add: sampleDirectionalCalls_def sampleColor_def usableTail_def)
    from slots_follow_call_order[where getShader = namedProgram and color = sampleColor
        and r = newRenderer, OF h0 h1 hp hB]
    obtain rk where T: "registerLights Directional namedProgram sampleColor newRenderer (take 2 sampleDirectionalCalls) = Inr rk \<and>
      lightCount Directional rk = 2 \<and>
      (0 < (2::nat) \<longrightarrow> uniformValues (GL rk) ((''lightVert'', ''lightTextureFrag''), countUniform Directional) =
                 Some (Int1 (JNum (real (2::nat))))) \<and>
      (\<forall>i<2. \<exists>c. sampleColor (colorArguments Directional (sampleDirectionalCalls ! i)) = Inr c \<and>
         uniformValues (GL rk) ((''lightVert'', ''lightTextureFrag''), indexed (colorUniform Directional) i) =
           Some (Float3 (js_index c 0) (js_index c 1) (js_index c 2))) \<and>
      (\<forall>g. geometryUniform Directional = Some g \<longrightarrow>
         (\<forall>i<2. \<exists>x y z. trailingVector (sampleDirectionalCalls ! i) = Inr (x, y, z) \<and>
           uniformValues (GL rk) ((''lightVert'', ''lightTextureFrag''), indexed g i) = Some (Float3 x y z)))"
      by (rule exE)
    note rk = T[THEN conjunct1]
    note cnt = T[THEN conjunct2, THEN conjunct1]
    have cu: "uniformValues (GL rk) ((''lightVert'', ''lightTextureFrag''), countUniform Directional) =
                 Some (Int1 (JNum (real (2::nat))))"
      using T[THEN conjunct2, THEN conjunct2, THEN conjunct1] by simp
    note C = T[THEN conjunct2, THEN conjunct2, THEN conjunct2, THEN conjunct1, rule_format]
    note G = T[THEN conjunct2, THEN conjunct2, THEN conjunct2, THEN conjunct2, rule_format]
    have R: "?R = rk" using rk unfolding tk by simp
    have i0: "(0::nat) < 2" and i1: "(1::nat) < 2" by simp_all
    have c0: "uniformValues (GL rk) ((''lightVert'', ''lightTextureFrag''), ''uDirectionalColor[0]'') =
        Some (rgb (resolveColor (colorArguments Directional ([JNum 250, JNum 250, JNum 250, JNum 0.5, JNum (- 0.5), JNum 0.25]))))"
      using C[OF i0] unfolding a0 by (auto simp: sampleColor_def indexed_0 rgb_def)
    have c1: "uniformValues (GL rk) ((''lightVert'', ''lightTextureFrag''), ''uDirectionalColor[1]'') =
        Some (rgb (resolveColor (colorArguments Directional ([JNum 10, JNum 20, JNum 30, JObj [(''x'', JNum 1), (''y'', JNum 2), (''z'', JNum 3)]]))))"
      using C[OF i1] unfolding a1 by (auto simp: sampleColor_def indexed_1 rgb_def)
    have g: "geometryUniform Directional = Some ''uLightingDirection''" by simp
    have tv0: "trailingVector (sampleDirectionalCalls ! 0) = Inr (JNum 0.5, JNum (- 0.5), JNum 0.25)"
      using trailingVector_numbers[of "[JNum 250, JNum 250, JNum 250]" "JNum 0.5" "JNum (- 0.5)" "0.25"]
      unfolding a0 by simp
    have tv1: "trailingVector (sampleDirectionalCalls ! 1) = Inr (JNum 1, JNum 2, JNum 3)"
      using trailingVector_object[of "[JNum 10, JNum 20, JNum 30]" "[(''x'', JNum 1), (''y'', JNum 2), (''z'', JNum 3)]"]
      unfolding a1 by simp
    have g0: "uniformValues (GL rk) ((''lightVert'', ''lightTextureFrag''), ''uLightingDirection[0]'') =
        Some (Float3 (JNum 0.5) (JNum (- 0.5)) (JNum 0.25))"
      using G[OF g i0] tv0 by (simp add: indexed_0)
    have g1: "uniformValues (GL rk) ((''lightVert'', ''lightTextureFrag''), ''uLightingDirection[1]'') =
        Some (Float3 (JNum 1) (JNum 2) (JNum 3))"
      using G[OF g i1] tv1 by (simp add: indexed_1)
    show ?thesis
      unfolding R using rk cnt cu c0 c1 g0 g1
      by (simp add: rgb_def resolveColor_def js_index_def)
  qed
  have P: "registerLights Point namedProgram sampleColor newRenderer (take 2 samplePointCalls) =
     Inr (outcome (registerLights Point namedProgram sampleColor newRenderer samplePointCalls)) \<and>
   lightCount Point (outcome (registerLights Point namedProgram sampleColor newRenderer samplePointCalls)) = 2 \<and>
   uniformValues (GL (outcome (registerLights Point namedProgram sampleColor newRenderer samplePointCalls)))
     ((''lightVert'', ''lightTextureFrag''), ''uPointLightCount'') = Some (Int1 (JNum 2)) \<and>
   uniformValues (GL (outcome (registerLights Point namedProgram sampleColor newRenderer samplePointCalls)))
     ((''lightVert'', ''lightTextureFrag''), ''uPointLightColor[0]'') = Some (Float3 (JNum 250) (JNum 250) (JNum 250)) \<and>
   uniformValues (GL (outcome (registerLights Point namedProgram sampleColor newRenderer samplePointCalls)))
     ((''lightVert'', ''lightTextureFrag''), ''uPointLightColor[1]'') = Some (Float3 (JNum 40) (JNum 50) (JNum 60)) \<and>
   uniformValues (GL (outcome (registerLights Point namedProgram sampleColor newRenderer samplePointCalls)))
     ((''lightVert'', ''lightTextureFrag''), ''uPointLightLocation[0]'') = Some (Float3 (JNum 1) (JNum 2) (JNum 3)) \<and>
   uniformValues (GL (outcome (registerLights Point namedProgram sampleColor newRenderer samplePointCalls)))
     ((''lightVert'', ''lightTextureFrag''), ''uPointLightLocation[1]'') = Some (Float3 (JNum 0) (JNum 0) (JNum 0))"
  proof -
    let ?R = "outcome (registerLights Point namedProgram sampleColor newRenderer samplePointCalls)"
    have h0: "lightCount Point newRenderer = 0" by (simp add: newRenderer_def)
    have h1: "(2::nat) \<le> length samplePointCalls" by (simp add: samplePointCalls_def)
    have tk: "take 2 samplePointCalls = samplePointCalls" by (simp add: samplePointCalls_def)
    have a0: "samplePointCalls ! 0 = [JNum 250, JNum 250, JNum 250, JNum 1, JNum 2, JNum 3]"
      and a1: "samplePointCalls ! 1 = [JNum 40, JNum 50, JNum 60, JObj [(''x'', JNum 0), (''y'', JNum 0), (''z'', JNum 0)]]"
      by (simp_all add: samplePointCalls_def)
    have hB: "\<forall>arguments \<in> set (take 2 samplePointCalls).
        (\<exists>c. sampleColor (colorArguments Point arguments) = Inr c) \<and> (Point = Ambient \<or> usableTail arguments)"
      by (simp add: samplePointCalls_def sampleColor_def usableTail_def)
    from slots_follow_call_order[where getShader = namedProgram and color = sampleColor
        and r = newRenderer, OF h0 h1 hp hB]
    obtain rk where T: "registerLights Point namedProgram sampleColor newRenderer (take 2 samplePointCalls) = Inr rk \<and>
      lightCount Point rk = 2 \<and>
      (0 < (2::nat) \<longrightarrow> uniformValues (GL rk) ((''lightVert'', ''lightTextureFrag''), countUniform Point) =
                 Some (Int1 (JNum (real (2::nat))))) \<and>
      (\<forall>i<2. \<exists>c. sampleColor (colorArguments Point (samplePointCalls ! i)) = Inr c \<and>
         uniformValues (GL rk) ((''lightVert'', ''lightTextureFrag''), indexed (colorUniform Point) i) =
           Some (Float3 (js_index c 0) (js_index c 1) (js_index c 2))) \<and>
      (\<forall>g. geometryUniform Point = Some g \<longrightarrow>
         (\<forall>i<2. \<exists>x y z. trailingVector (samplePointCalls ! i) = Inr (x, y, z) \<and>
           uniformValues (GL rk) ((''lightVert'', ''lightTextureFrag''), indexed g i) = Some (Float3 x y z)))"
      by (rule exE)
    note rk = T[THEN conjunct1]
    note cnt = T[THEN conjunct2, THEN conjunct1]
    have cu: "uniformValues (GL rk) ((''lightVert'', ''lightTextureFrag''), countUniform Point) =
                 Some (Int1 (JNum (real (2::nat))))"
      using T[THEN conjunct2, THEN conjunct2, THEN conjunct1] by simp
    note C = T[THEN conjunct2, THEN conjunct2, THEN conjunct2, THEN conjunct1, rule_format]
    note G = T[THEN conjunct2, THEN conjunct2, THEN conjunct2, THEN conjunct2, rule_format]
    have R: "?R = rk" using rk unfolding tk by simp
    have i0: "(0::nat) < 2" and i1: "(1::nat) < 2" by simp_all
    have c0: "uniformValues (GL rk) ((''lightVert'', ''lightTextureFrag''), ''uPointLightColor[0]'') =
        Some (rgb (resolveColor (colorArguments Point ([JNum 250, JNum 250, JNum 250, JNum 1, JNum 2, JNum 3]))))"
      using C[OF i0] unfolding a0 by (auto simp: sampleColor_def indexed_0 rgb_def)
    have c1: "uniformValues (GL rk) ((''lightVert'', ''lightTextureFrag''), ''uPointLightColor[1]'') =
        Some (rgb (resolveColor (colorArguments Point ([JNum 40, JNum 50, JNum 60, JObj [(''x'', JNum 0), (''y'', JNum 0), (''z'', JNum 0)]]))))"
      using C[OF i1] unfolding a1 by (auto simp: sampleColor_def indexed_1 rgb_def)
    have g: "geometryUniform Point = Some ''uPointLightLocation''" by simp
    have tv0: "trailingVector (samplePointCalls ! 0) = Inr (JNum 1, JNum 2, JNum 3)"
      using trailingVector_numbers[of "[JNum 250, JNum 250, JNum 250]" "JNum 1" "JNum 2" "3"]
      unfolding a0 by simp
    have tv1: "trailingVector (samplePointCalls ! 1) = Inr (JNum 0, JNum 0, JNum 0)"
      using trailingVector_object[of "[JNum 40, JNum 50, JNum 60]" "[(''x'', JNum 0), (''y'', JNum 0), (''z'', JNum 0)]"]
      unfolding a1 by simp
    have g0: "uniformValues (GL rk) ((''lightVert'', ''lightTextureFrag''), ''uPointLightLocation[0]'') =
        Some (Float3 (JNum 1) (JNum 2) (JNum 3))"
      using G[OF g i0] tv0 by (simp add: indexed_0)
    have g1: "uniformValues (GL rk) ((''lightVert'', ''lightTextureFrag''), ''uPointLightLocation[1]'') =
        Some (Float3 (JNum 0) (JNum 0) (JNum 0))"
      using G[OF g i1] tv1 by (simp add: indexed_1)
    show ?thesis
      unfolding R using rk cnt cu c0 c1 g0 g1
      by (simp add: rgb_def resolveColor_def js_index_def)
  qed
  have z: "lightCount Ambient newRenderer = 0" "lightCount Directional newRenderer = 0"
    "lightCount Point newRenderer = 0"
    by (simp_all add: newRenderer_def)
  show ?thesis using z hp A D P by (elim conjE) (intro conjI; assumption)
qed




text \<open>
  C3.  \<^verbatim>\<open>directionalLight(250, 1, 2, 3)\<close>, a gray value followed by the direction
  (1, 2, 3): the function hands its first three parameters to the colour resolver, so the
  colour it writes is resolved from (250, 1, 2), where the colour argument alone resolves
  to (250, 250, 250).  The direction written is (1, 2, 3), the last three arguments.
\<close>

theorem gray_color_resolved_with_direction:
  "directionalLight namedProgram sampleColor newRenderer [JNum 250, JNum 1, JNum 2, JNum 3] =
     Inr (outcome (directionalLight namedProgram sampleColor newRenderer
                     [JNum 250, JNum 1, JNum 2, JNum 3])) \<and>
   uniformValues (GL (outcome (directionalLight namedProgram sampleColor newRenderer
                     [JNum 250, JNum 1, JNum 2, JNum 3])))
     ((''lightVert'', ''lightTextureFrag''), ''uDirectionalColor[0]'') =
     Some (Float3 (JNum 250) (JNum 1) (JNum 2)) \<and>
   rgb (resolveColor [JNum 250]) = Float3 (JNum 250) (JNum 250) (JNum 250) \<and>
   uniformValues (GL (outcome (directionalLight namedProgram sampleColor newRenderer
                     [JNum 250, JNum 1, JNum 2, JNum 3])))
     ((''lightVert'', ''lightTextureFrag''), ''uLightingDirection[0]'') =
     Some (Float3 (JNum 1) (JNum 2) (JNum 3))"
proof -
  let ?a = "[JNum 250, JNum 1, JNum 2, JNum 3]"
  let ?c = "[JNum 250, JNum 1, JNum 2, JNum 255]"
  have hp: "namedProgram ''lightVert'' ''lightTextureFrag'' = Inr (''lightVert'', ''lightTextureFrag'')"
    by (simp add: namedProgram_def)
  have c: "sampleColor (colorArguments Directional ?a) = Inr ?c"
    by (simp add: sampleColor_def resolveColor_def js_index_def)
  have v: "trailingVector ?a = Inr (JNum 1, JNum 2, JNum 3)"
    using trailingVector_numbers[of "[JNum 250]" "JNum 1" "JNum 2" 3] by simp
  from directionalLight_returns[where gs = namedProgram and col = sampleColor and args = ?a
      and r = newRenderer, OF hp c v]
  obtain r' where r': "directionalLight namedProgram sampleColor newRenderer ?a = Inr r'"
    and u: "uniformValues (GL r') = (uniformValues (GL newRenderer))
       (((''lightVert'', ''lightTextureFrag''), indexed ''uDirectionalColor'' (directionalLightCount newRenderer)) \<mapsto>
           rgb ?c,
        ((''lightVert'', ''lightTextureFrag''), indexed ''uLightingDirection'' (directionalLightCount newRenderer)) \<mapsto>
           Float3 (JNum 1) (JNum 2) (JNum 3),
        ((''lightVert'', ''lightTextureFrag''), ''uMaterialColor'') \<mapsto> white,
        ((''lightVert'', ''lightTextureFrag''), ''uDirectionalLightCount'') \<mapsto>
           Int1 (JNum (real (directionalLightCount newRenderer + 1))))"
    by blast
  show ?thesis
    unfolding r' outcome.simps u
    by (simp add: newRenderer_def indexed_0 resolveColor_def js_index_def rgb_def)
qed

text \<open>
  C4.  For \<^verbatim>\<open>directionalLight\<close> and \<^verbatim>\<open>pointLight\<close>, where the registry returns the
  lighting program and the colour resolver returns for both calls: a call that ends with
  the three numbers \<open>x\<close>, \<open>y\<close>, \<open>z\<close> and a call that ends with one object whose fields
  \<^verbatim>\<open>x\<close>, \<^verbatim>\<open>y\<close>, \<^verbatim>\<open>z\<close> are those numbers both return, and both write the same vector
  (x, y, z) to the element of the geometry array at the counter (so with x = 1, y = 2,
  z = 3).  In general the vector is the last three arguments, in order, when the last
  argument is a number, and the fields \<^verbatim>\<open>x\<close>, \<^verbatim>\<open>y\<close>, \<^verbatim>\<open>z\<close> of the last argument when that
  is an object.
\<close>

theorem scalars_and_vector_object_agree:
  assumes "geometryUniform t = Some g"
    and "map_of fs ''x'' = Some (JNum x)"
    and "map_of fs ''y'' = Some (JNum y)"
    and "map_of fs ''z'' = Some (JNum z)"
    and "getShader ''lightVert'' ''lightTextureFrag'' = Inr p"
    and "color (colorArguments t (before @ [JNum x, JNum y, JNum z])) = Inr c1"
    and "color (colorArguments t (before' @ [JObj fs])) = Inr c2"
  shows "(\<exists>r1 r2.
      registerLight t getShader color r (before @ [JNum x, JNum y, JNum z]) = Inr r1 \<and>
      registerLight t getShader color r (before' @ [JObj fs]) = Inr r2 \<and>
      uniformValues (GL r1) (p, indexed g (lightCount t r)) =
        Some (Float3 (JNum x) (JNum y) (JNum z)) \<and>
      uniformValues (GL r2) (p, indexed g (lightCount t r)) =
        Some (Float3 (JNum x) (JNum y) (JNum z))) \<and>
    trailingVector (before @ [a, b, JNum z]) = Inr (a, b, JNum z) \<and>
    trailingVector (before' @ [JObj fs]) = Inr (JNum x, JNum y, JNum z)"
proof -
  have v1: "trailingVector (before @ [a, b, JNum z]) = Inr (a, b, JNum z)" for a b
    by (rule trailingVector_numbers)
  have v2: "trailingVector (before' @ [JObj fs]) = Inr (JNum x, JNum y, JNum z)"
    by (simp add: trailingVector_object assms(2-4))
  have u1: "t = Ambient \<or> usableTail (before @ [JNum x, JNum y, JNum z])"
    and u2: "t = Ambient \<or> usableTail (before' @ [JObj fs])"
    by (simp_all add: usableTail_def)
  from registerLight_returns[where gs = getShader and col = color and t = t and r = r
      and args = "before @ [JNum x, JNum y, JNum z]", OF assms(5,6) u1]
    assms(1) v1[of "JNum x" "JNum y"]
  obtain r1 where r1: "registerLight t getShader color r (before @ [JNum x, JNum y, JNum z]) = Inr r1"
    and w1: "uniformValues (GL r1) (p, indexed g (lightCount t r)) =
        Some (Float3 (JNum x) (JNum y) (JNum z))"
    by auto
  from registerLight_returns[where gs = getShader and col = color and t = t and r = r
      and args = "before' @ [JObj fs]", OF assms(5,7) u2]
    assms(1) v2
  obtain r2 where r2: "registerLight t getShader color r (before' @ [JObj fs]) = Inr r2"
    and w2: "uniformValues (GL r2) (p, indexed g (lightCount t r)) =
        Some (Float3 (JNum x) (JNum y) (JNum z))"
    by auto
  from r1 r2 w1 w2 v1 v2 show ?thesis by blast
qed

theorem scalars_and_vector_object_agree_witness:
  "geometryUniform Point = Some ''uPointLightLocation'' \<and>
   map_of [(''x'', JNum 1), (''y'', JNum 2), (''z'', JNum 3)] ''x'' = Some (JNum 1) \<and>
   map_of [(''x'', JNum 1), (''y'', JNum 2), (''z'', JNum 3)] ''y'' = Some (JNum 2) \<and>
   map_of [(''x'', JNum 1), (''y'', JNum 2), (''z'', JNum 3)] ''z'' = Some (JNum 3) \<and>
   namedProgram ''lightVert'' ''lightTextureFrag'' = Inr (''lightVert'', ''lightTextureFrag'') \<and>
   sampleColor (colorArguments Point [JNum 250, JNum 250, JNum 250, JNum 1, JNum 2, JNum 3]) =
     Inr [JNum 250, JNum 250, JNum 250, JNum 255] \<and>
   sampleColor (colorArguments Point
       [JNum 250, JNum 250, JNum 250, JObj [(''x'', JNum 1), (''y'', JNum 2), (''z'', JNum 3)]]) =
     Inr [JNum 250, JNum 250, JNum 250, JNum 255] \<and>
   pointLight namedProgram sampleColor newRenderer [JNum 250, JNum 250, JNum 250, JNum 1, JNum 2, JNum 3] =
     Inr (outcome (pointLight namedProgram sampleColor newRenderer
                     [JNum 250, JNum 250, JNum 250, JNum 1, JNum 2, JNum 3])) \<and>
   pointLight namedProgram sampleColor newRenderer
       [JNum 250, JNum 250, JNum 250, JObj [(''x'', JNum 1), (''y'', JNum 2), (''z'', JNum 3)]] =
     Inr (outcome (pointLight namedProgram sampleColor newRenderer
       [JNum 250, JNum 250, JNum 250, JObj [(''x'', JNum 1), (''y'', JNum 2), (''z'', JNum 3)]])) \<and>
   uniformValues (GL (outcome (pointLight namedProgram sampleColor newRenderer
                     [JNum 250, JNum 250, JNum 250, JNum 1, JNum 2, JNum 3])))
     ((''lightVert'', ''lightTextureFrag''), ''uPointLightLocation[0]'') =
     Some (Float3 (JNum 1) (JNum 2) (JNum 3)) \<and>
   uniformValues (GL (outcome (pointLight namedProgram sampleColor newRenderer
       [JNum 250, JNum 250, JNum 250, JObj [(''x'', JNum 1), (''y'', JNum 2), (''z'', JNum 3)]])))
     ((''lightVert'', ''lightTextureFrag''), ''uPointLightLocation[0]'') =
     Some (Float3 (JNum 1) (JNum 2) (JNum 3))"
proof -
  let ?fs = "[(''x'', JNum 1), (''y'', JNum 2), (''z'', JNum 3)]"
  let ?p = "(''lightVert'', ''lightTextureFrag'')"
  let ?c = "[JNum 250, JNum 250, JNum 250, JNum 255]"
  let ?A = "pointLight namedProgram sampleColor newRenderer [JNum 250, JNum 250, JNum 250, JNum 1, JNum 2, JNum 3]"
  let ?B = "pointLight namedProgram sampleColor newRenderer [JNum 250, JNum 250, JNum 250, JObj ?fs]"
  have g: "geometryUniform Point = Some ''uPointLightLocation''" by simp
  have x: "map_of ?fs ''x'' = Some (JNum 1)" and y: "map_of ?fs ''y'' = Some (JNum 2)"
    and z: "map_of ?fs ''z'' = Some (JNum 3)" by simp_all
  have hp: "namedProgram ''lightVert'' ''lightTextureFrag'' = Inr ?p"
    by (simp add: namedProgram_def)
  have ca: "sampleColor (colorArguments Point ([JNum 250, JNum 250, JNum 250] @ [JNum 1, JNum 2, JNum 3])) = Inr ?c"
    and cb: "sampleColor (colorArguments Point ([JNum 250, JNum 250, JNum 250] @ [JObj ?fs])) = Inr ?c"
    by (simp_all add: sampleColor_def resolveColor_def js_index_def)
  note T = scalars_and_vector_object_agree[where getShader = namedProgram and color = sampleColor
      and r = newRenderer and before = "[JNum 250, JNum 250, JNum 250]"
      and before' = "[JNum 250, JNum 250, JNum 250]" and a = "JNum 1" and b = "JNum 2",
      OF g x y z hp ca cb, THEN conjunct1]
  from T obtain r1 r2
    where a: "registerLight Point namedProgram sampleColor newRenderer
                ([JNum 250, JNum 250, JNum 250] @ [JNum 1, JNum 2, JNum 3]) = Inr r1"
      and b: "registerLight Point namedProgram sampleColor newRenderer
                ([JNum 250, JNum 250, JNum 250] @ [JObj ?fs]) = Inr r2"
      and u1: "uniformValues (GL r1) (?p, indexed ''uPointLightLocation'' (lightCount Point newRenderer)) =
             Some (Float3 (JNum 1) (JNum 2) (JNum 3))"
      and u2: "uniformValues (GL r2) (?p, indexed ''uPointLightLocation'' (lightCount Point newRenderer)) =
             Some (Float3 (JNum 1) (JNum 2) (JNum 3))"
    by blast
  have a': "?A = Inr r1" using a by simp
  have b': "?B = Inr r2" using b by simp
  have c: "lightCount Point newRenderer = 0" by (simp add: newRenderer_def)
  from u1 u2 hp ca cb show ?thesis
    unfolding a' b' c by (simp add: indexed_0)
qed

text \<open>
  C5.  Every call of a light function that returns has written the material colour
  (1, 1, 1, 1) to \<^verbatim>\<open>uMaterialColor\<close> of the lighting program, the program the registry
  returned to the call, which is the program in use; this holds from any renderer state,
  whatever the uniform held before.
\<close>

theorem material_color_always_written:
  assumes "registerLight t getShader color r arguments = Inr r'"
  shows "\<exists>p. getShader ''lightVert'' ''lightTextureFrag'' = Inr p \<and>
         currentProgram (GL r') = Some p \<and>
         uniformValues (GL r') (p, ''uMaterialColor'') =
           Some (Float4 (JNum 1) (JNum 1) (JNum 1) (JNum 1))"
proof -
  from registerLight_Inr_sources[OF assms] obtain p c
    where gs: "getShader ''lightVert'' ''lightTextureFrag'' = Inr p"
      and col: "color (colorArguments t arguments) = Inr c"
    by blast
  from registerLight_Inr_all[OF assms gs col] gs show ?thesis by blast
qed

theorem material_color_always_written_witness:
  "registerLight Ambient namedProgram sampleColor newRenderer [JNum 150] =
     Inr (outcome (registerLight Ambient namedProgram sampleColor newRenderer [JNum 150])) \<and>
   uniformValues (GL (outcome (registerLight Ambient namedProgram sampleColor newRenderer [JNum 150])))
      ((''lightVert'', ''lightTextureFrag''), ''uMaterialColor'') =
     Some (Float4 (JNum 1) (JNum 1) (JNum 1) (JNum 1)) \<and>
   registerLight Directional namedProgram sampleColor newRenderer
      [JNum 250, JNum 250, JNum 250, JNum 0, JNum 0, JNum 1] =
     Inr (outcome (registerLight Directional namedProgram sampleColor newRenderer
      [JNum 250, JNum 250, JNum 250, JNum 0, JNum 0, JNum 1])) \<and>
   uniformValues (GL (outcome (registerLight Directional namedProgram sampleColor newRenderer
      [JNum 250, JNum 250, JNum 250, JNum 0, JNum 0, JNum 1])))
      ((''lightVert'', ''lightTextureFrag''), ''uMaterialColor'') =
     Some (Float4 (JNum 1) (JNum 1) (JNum 1) (JNum 1)) \<and>
   registerLight Point namedProgram sampleColor newRenderer
      [JNum 250, JNum 250, JNum 250, JObj [(''x'', JNum 0), (''y'', JNum 0), (''z'', JNum 0)]] =
     Inr (outcome (registerLight Point namedProgram sampleColor newRenderer
      [JNum 250, JNum 250, JNum 250, JObj [(''x'', JNum 0), (''y'', JNum 0), (''z'', JNum 0)]])) \<and>
   uniformValues (GL (outcome (registerLight Point namedProgram sampleColor newRenderer
      [JNum 250, JNum 250, JNum 250, JObj [(''x'', JNum 0), (''y'', JNum 0), (''z'', JNum 0)]])))
      ((''lightVert'', ''lightTextureFrag''), ''uMaterialColor'') =
     Some (Float4 (JNum 1) (JNum 1) (JNum 1) (JNum 1))"
proof -
  let ?a = "[JNum 150]"
  let ?d = "[JNum 250, JNum 250, JNum 250, JNum 0, JNum 0, JNum 1]"
  let ?q = "[JNum 250, JNum 250, JNum 250, JObj [(''x'', JNum 0), (''y'', JNum 0), (''z'', JNum 0)]]"
  have hp: "namedProgram ''lightVert'' ''lightTextureFrag'' = Inr (''lightVert'', ''lightTextureFrag'')"
    by (simp add: namedProgram_def)
  have ha: "registerLight Ambient namedProgram sampleColor newRenderer ?a =
           Inr (outcome (registerLight Ambient namedProgram sampleColor newRenderer ?a))"
    by (rule registerLight_Inr_outcome[where gs = namedProgram and col = sampleColor, OF hp])
       (simp_all add: sampleColor_def)
  have hd: "registerLight Directional namedProgram sampleColor newRenderer ?d =
           Inr (outcome (registerLight Directional namedProgram sampleColor newRenderer ?d))"
    by (rule registerLight_Inr_outcome[where gs = namedProgram and col = sampleColor, OF hp])
       (simp_all add: sampleColor_def usableTail_def)
  have hq: "registerLight Point namedProgram sampleColor newRenderer ?q =
           Inr (outcome (registerLight Point namedProgram sampleColor newRenderer ?q))"
    by (rule registerLight_Inr_outcome[where gs = namedProgram and col = sampleColor, OF hp])
       (simp_all add: sampleColor_def usableTail_def)
  from material_color_always_written[OF ha] material_color_always_written[OF hd]
    material_color_always_written[OF hq] ha hd hq
  show ?thesis unfolding hp by blast
qed

text \<open>
  C6.  Whatever the colour resolver returns, a light function forwards its channels 0, 1
  and 2 only.  Where the registry returns the lighting program and the resolver returns
  a colour, the call writes the 3-float of these channels to the element of the colour
  array at the counter, and the element still holds it when the call ends, whether the
  call returns or throws on reading its vector.  And two resolvers that agree on these
  three channels for the arguments of the call (and differ in the alpha channel, or in
  anything else) give the same result, with the same GL state and the same GL calls.
\<close>

theorem alpha_channel_not_forwarded:
  assumes "color (colorArguments t arguments) = Inr c"
    and "color' (colorArguments t arguments) = Inr c'"
    and "js_index c 0 = js_index c' 0"
    and "js_index c 1 = js_index c' 1"
    and "js_index c 2 = js_index c' 2"
  shows "registerLight t getShader color r arguments = registerLight t getShader color' r arguments \<and>
    (\<forall>p. getShader ''lightVert'' ''lightTextureFrag'' = Inr p \<longrightarrow>
       uniformValues (GL (outcome (registerLight t getShader color r arguments)))
         (p, indexed (colorUniform t) (lightCount t r)) =
       Some (Float3 (js_index c 0) (js_index c 1) (js_index c 2)))"
proof (intro conjI allI impI)
  show "registerLight t getShader color r arguments = registerLight t getShader color' r arguments"
    using assms by (rule registerLight_color_cong)
next
  fix p
  assume gs: "getShader ''lightVert'' ''lightTextureFrag'' = Inr p"
  from registerLight_color_written[where gs = getShader and col = color and t = t
      and args = arguments and r = r, OF gs assms(1)]
  show "uniformValues (GL (outcome (registerLight t getShader color r arguments)))
         (p, indexed (colorUniform t) (lightCount t r)) =
       Some (Float3 (js_index c 0) (js_index c 1) (js_index c 2))"
    by (simp add: rgb_def)
qed

theorem alpha_channel_not_forwarded_witness:
  "js_index (resolveColor [JNum 150, JNum 100]) 3 = JNum 100 \<and>
   js_index ((resolveColor [JNum 150, JNum 100])[3 := JNum 0]) 3 = JNum 0 \<and>
   ambientLight namedProgram sampleColor newRenderer [JNum 150, JNum 100] =
   ambientLight namedProgram (\<lambda>args. Inr ((resolveColor args)[3 := JNum 0])) newRenderer
     [JNum 150, JNum 100] \<and>
   \<not> isl (ambientLight namedProgram sampleColor newRenderer [JNum 150, JNum 100]) \<and>
   uniformValues (GL (outcome (ambientLight namedProgram sampleColor newRenderer [JNum 150, JNum 100])))
     ((''lightVert'', ''lightTextureFrag''), ''uAmbientColor[0]'') =
     Some (Float3 (JNum 150) (JNum 150) (JNum 150)) \<and>
   directionalLight namedProgram sampleColor newRenderer [JNum 10, JNum 20, JNum 30, JNull] =
   directionalLight namedProgram (\<lambda>args. Inr ((resolveColor args)[3 := JNum 0])) newRenderer
     [JNum 10, JNum 20, JNum 30, JNull] \<and>
   isl (directionalLight namedProgram sampleColor newRenderer [JNum 10, JNum 20, JNum 30, JNull]) \<and>
   uniformValues (GL (outcome (directionalLight namedProgram sampleColor newRenderer
                                 [JNum 10, JNum 20, JNum 30, JNull])))
     ((''lightVert'', ''lightTextureFrag''), ''uDirectionalColor[0]'') =
     Some (Float3 (JNum 10) (JNum 20) (JNum 30)) \<and>
   pointLight namedProgram sampleColor newRenderer [JNum 40, JNum 50, JNum 60, JNum 1, JNum 2, JNum 3] =
   pointLight namedProgram (\<lambda>args. Inr ((resolveColor args)[3 := JNum 0])) newRenderer
     [JNum 40, JNum 50, JNum 60, JNum 1, JNum 2, JNum 3] \<and>
   \<not> isl (pointLight namedProgram sampleColor newRenderer [JNum 40, JNum 50, JNum 60, JNum 1, JNum 2, JNum 3]) \<and>
   uniformValues (GL (outcome (pointLight namedProgram sampleColor newRenderer
                                 [JNum 40, JNum 50, JNum 60, JNum 1, JNum 2, JNum 3])))
     ((''lightVert'', ''lightTextureFrag''), ''uPointLightColor[0]'') =
     Some (Float3 (JNum 40) (JNum 50) (JNum 60))"
proof -
  let ?c' = "\<lambda>args. Inr ((resolveColor args)[3 := JNum 0]) :: error + jsval list"
  let ?p = "(''lightVert'', ''lightTextureFrag'')"
  let ?a = "[JNum 150, JNum 100]"
  let ?d = "[JNum 10, JNum 20, JNum 30, JNull]"
  let ?q = "[JNum 40, JNum 50, JNum 60, JNum 1, JNum 2, JNum 3]"
  have hp: "namedProgram ''lightVert'' ''lightTextureFrag'' = Inr ?p"
    by (simp add: namedProgram_def)
  have z: "lightCount Ambient newRenderer = 0" "lightCount Directional newRenderer = 0"
    "lightCount Point newRenderer = 0"
    by (simp_all add: newRenderer_def)
  have ra: "resolveColor ?a = [JNum 150, JNum 150, JNum 150, JNum 100]"
    by (simp add: resolveColor_def)
  have a1: "sampleColor (colorArguments Ambient ?a) = Inr [JNum 150, JNum 150, JNum 150, JNum 100]"
    and a2: "?c' (colorArguments Ambient ?a) = Inr [JNum 150, JNum 150, JNum 150, JNum 0]"
    by (simp_all add: sampleColor_def ra)
  have d1: "sampleColor (colorArguments Directional ?d) = Inr [JNum 10, JNum 20, JNum 30, JNum 255]"
    and d2: "?c' (colorArguments Directional ?d) = Inr [JNum 10, JNum 20, JNum 30, JNum 0]"
    by (simp_all add: sampleColor_def resolveColor_def js_index_def)
  have q1: "sampleColor (colorArguments Point ?q) = Inr [JNum 40, JNum 50, JNum 60, JNum 255]"
    and q2: "?c' (colorArguments Point ?q) = Inr [JNum 40, JNum 50, JNum 60, JNum 0]"
    by (simp_all add: sampleColor_def resolveColor_def js_index_def)
  have A0: "js_index [JNum 150, JNum 150, JNum 150, JNum 100] 0 = js_index [JNum 150, JNum 150, JNum 150, JNum 0] 0"
    and A1: "js_index [JNum 150, JNum 150, JNum 150, JNum 100] 1 = js_index [JNum 150, JNum 150, JNum 150, JNum 0] 1"
    and A2: "js_index [JNum 150, JNum 150, JNum 150, JNum 100] 2 = js_index [JNum 150, JNum 150, JNum 150, JNum 0] 2"
    by (simp_all add: js_index_def)
  note A = alpha_channel_not_forwarded[where color = sampleColor and color' = "?c'"
      and t = Ambient and arguments = "?a" and getShader = namedProgram and r = newRenderer,
      OF a1 a2 A0 A1 A2]
  have D0: "js_index [JNum 10, JNum 20, JNum 30, JNum 255] 0 = js_index [JNum 10, JNum 20, JNum 30, JNum 0] 0"
    and D1: "js_index [JNum 10, JNum 20, JNum 30, JNum 255] 1 = js_index [JNum 10, JNum 20, JNum 30, JNum 0] 1"
    and D2: "js_index [JNum 10, JNum 20, JNum 30, JNum 255] 2 = js_index [JNum 10, JNum 20, JNum 30, JNum 0] 2"
    by (simp_all add: js_index_def)
  note D = alpha_channel_not_forwarded[where color = sampleColor and color' = "?c'"
      and t = Directional and arguments = "?d" and getShader = namedProgram and r = newRenderer,
      OF d1 d2 D0 D1 D2]
  have Q0: "js_index [JNum 40, JNum 50, JNum 60, JNum 255] 0 = js_index [JNum 40, JNum 50, JNum 60, JNum 0] 0"
    and Q1: "js_index [JNum 40, JNum 50, JNum 60, JNum 255] 1 = js_index [JNum 40, JNum 50, JNum 60, JNum 0] 1"
    and Q2: "js_index [JNum 40, JNum 50, JNum 60, JNum 255] 2 = js_index [JNum 40, JNum 50, JNum 60, JNum 0] 2"
    by (simp_all add: js_index_def)
  note Q = alpha_channel_not_forwarded[where color = sampleColor and color' = "?c'"
      and t = Point and arguments = "?q" and getShader = namedProgram and r = newRenderer,
      OF q1 q2 Q0 Q1 Q2]
  have ha: "ambientLight namedProgram sampleColor newRenderer ?a =
      Inr (outcome (ambientLight namedProgram sampleColor newRenderer ?a))"
    using registerLight_Inr_outcome[where gs = namedProgram and col = sampleColor and t = Ambient
        and args = ?a and r = newRenderer, OF hp a1]
    by simp
  have ia: "\<not> isl (ambientLight namedProgram sampleColor newRenderer ?a)"
    by (subst ha) simp
  have vd: "\<not> usableTail ?d" by (simp add: usableTail_def)
  have id: "isl (directionalLight namedProgram sampleColor newRenderer ?d)"
    using registerLight_vector_throws[where gs = namedProgram and col = sampleColor
        and t = Directional and args = ?d and r = newRenderer, OF hp d1 _ vd]
    by auto
  have vq: "Point = Ambient \<or> usableTail ?q" by (simp add: usableTail_def)
  have hq: "pointLight namedProgram sampleColor newRenderer ?q =
      Inr (outcome (pointLight namedProgram sampleColor newRenderer ?q))"
    using registerLight_Inr_outcome[where gs = namedProgram and col = sampleColor and t = Point
        and args = ?q and r = newRenderer, OF hp q1 vq]
    by simp
  have iq: "\<not> isl (pointLight namedProgram sampleColor newRenderer ?q)"
    by (subst hq) simp
  have e1: "js_index (resolveColor ?a) 3 = JNum 100"
    and e2: "js_index ((resolveColor ?a)[3 := JNum 0]) 3 = JNum 0"
    by (simp_all add: ra js_index_def)
  have Aeq: "ambientLight namedProgram sampleColor newRenderer ?a =
      ambientLight namedProgram ?c' newRenderer ?a"
    using A[THEN conjunct1] by simp
  have Au: "uniformValues (GL (outcome (ambientLight namedProgram sampleColor newRenderer ?a)))
      (?p, ''uAmbientColor[0]'') = Some (Float3 (JNum 150) (JNum 150) (JNum 150))"
    using A[THEN conjunct2, rule_format, OF hp] unfolding z by (simp add: indexed_0 js_index_def)
  have Deq: "directionalLight namedProgram sampleColor newRenderer ?d =
      directionalLight namedProgram ?c' newRenderer ?d"
    using D[THEN conjunct1] by simp
  have Du: "uniformValues (GL (outcome (directionalLight namedProgram sampleColor newRenderer ?d)))
      (?p, ''uDirectionalColor[0]'') = Some (Float3 (JNum 10) (JNum 20) (JNum 30))"
    using D[THEN conjunct2, rule_format, OF hp] unfolding z by (simp add: indexed_0 js_index_def)
  have Qeq: "pointLight namedProgram sampleColor newRenderer ?q =
      pointLight namedProgram ?c' newRenderer ?q"
    using Q[THEN conjunct1] by simp
  have Qu: "uniformValues (GL (outcome (pointLight namedProgram sampleColor newRenderer ?q)))
      (?p, ''uPointLightColor[0]'') = Some (Float3 (JNum 40) (JNum 50) (JNum 60))"
    using Q[THEN conjunct2, rule_format, OF hp] unfolding z by (simp add: indexed_0 js_index_def)
  show ?thesis
    by (intro conjI) (fact e1 e2 Aeq ia Au Deq id Du Qeq iq Qu)+
qed

text \<open>
  C7.  A call that returns adds exactly 1 to the counter of its own light type and leaves
  the other two counters as they were; and no call, returning or throwing, lowers any
  counter.
\<close>

theorem one_counter_incremented:
  "(\<forall>r'. registerLight t getShader color r arguments = Inr r' \<longrightarrow>
      lightCount t r' = lightCount t r + 1 \<and>
      (\<forall>t'. t' \<noteq> t \<longrightarrow> lightCount t' r' = lightCount t' r)) \<and>
   (\<forall>t'. lightCount t' r \<le> lightCount t' (outcome (registerLight t getShader color r arguments)))"
proof -
  have R: "lightCount t r' = lightCount t r + 1 \<and>
      (\<forall>t'. t' \<noteq> t \<longrightarrow> lightCount t' r' = lightCount t' r)"
    if ok: "registerLight t getShader color r arguments = Inr r'" for r'
  proof -
    from registerLight_Inr_sources[OF ok] obtain p c
      where gs: "getShader ''lightVert'' ''lightTextureFrag'' = Inr p"
        and col: "color (colorArguments t arguments) = Inr c"
      by blast
    from registerLight_Inr_all[OF ok gs col] show ?thesis by blast
  qed
  have L: "lightCount t' r \<le> lightCount t' (outcome (registerLight t getShader color r arguments))"
    for t'
  proof (cases "registerLight t getShader color r arguments")
    case (Inl a)
    obtain e r' where a: "a = (e, r')" by (cases a) auto
    from registerLight_Inl_counts[OF Inl[unfolded a]] show ?thesis by (simp add: Inl a)
  next
    case (Inr r')
    from R[OF Inr] have "lightCount t r' = lightCount t r + 1"
      and "t' \<noteq> t \<Longrightarrow> lightCount t' r' = lightCount t' r" by blast+
    then show ?thesis by (cases "t' = t") (simp_all add: Inr)
  qed
  from R L show ?thesis by blast
qed

theorem one_counter_incremented_witness:
  "registerLight Ambient namedProgram sampleColor newRenderer [JNum 150] =
     Inr (outcome (ambientLight namedProgram sampleColor newRenderer [JNum 150])) \<and>
   ambientLightCount (outcome (ambientLight namedProgram sampleColor newRenderer [JNum 150])) = 1 \<and>
   directionalLightCount (outcome (ambientLight namedProgram sampleColor newRenderer [JNum 150])) = 0 \<and>
   pointLightCount (outcome (ambientLight namedProgram sampleColor newRenderer [JNum 150])) = 0 \<and>
   registerLight Point namedProgram sampleColor newRenderer
       [JNum 250, JNum 250, JNum 250, JNum 1, JNum 2, JNum 3] =
     Inr (outcome (pointLight namedProgram sampleColor newRenderer
       [JNum 250, JNum 250, JNum 250, JNum 1, JNum 2, JNum 3])) \<and>
   ambientLightCount (outcome (pointLight namedProgram sampleColor newRenderer
       [JNum 250, JNum 250, JNum 250, JNum 1, JNum 2, JNum 3])) = 0 \<and>
   directionalLightCount (outcome (pointLight namedProgram sampleColor newRenderer
       [JNum 250, JNum 250, JNum 250, JNum 1, JNum 2, JNum 3])) = 0 \<and>
   pointLightCount (outcome (pointLight namedProgram sampleColor newRenderer
       [JNum 250, JNum 250, JNum 250, JNum 1, JNum 2, JNum 3])) = 1"
proof -
  let ?a = "[JNum 150]"
  let ?q = "[JNum 250, JNum 250, JNum 250, JNum 1, JNum 2, JNum 3]"
  have hp: "namedProgram ''lightVert'' ''lightTextureFrag'' = Inr (''lightVert'', ''lightTextureFrag'')"
    by (simp add: namedProgram_def)
  have ha: "registerLight Ambient namedProgram sampleColor newRenderer ?a =
     Inr (outcome (registerLight Ambient namedProgram sampleColor newRenderer ?a))"
    by (rule registerLight_Inr_outcome[where gs = namedProgram and col = sampleColor, OF hp])
       (simp_all add: sampleColor_def)
  have hq: "registerLight Point namedProgram sampleColor newRenderer ?q =
     Inr (outcome (registerLight Point namedProgram sampleColor newRenderer ?q))"
    by (rule registerLight_Inr_outcome[where gs = namedProgram and col = sampleColor, OF hp])
       (simp_all add: sampleColor_def usableTail_def)
  have d: "Directional \<noteq> Ambient" "Point \<noteq> Ambient" "Ambient \<noteq> Point" "Directional \<noteq> Point"
    by simp_all
  note A = one_counter_incremented[of Ambient namedProgram sampleColor newRenderer ?a,
      THEN conjunct1, rule_format, OF ha]
  note Q = one_counter_incremented[of Point namedProgram sampleColor newRenderer ?q,
      THEN conjunct1, rule_format, OF hq]
  from A[THEN conjunct1] A[THEN conjunct2, rule_format, OF d(1)] A[THEN conjunct2, rule_format, OF d(2)]
    Q[THEN conjunct1] Q[THEN conjunct2, rule_format, OF d(3)] Q[THEN conjunct2, rule_format, OF d(4)]
    ha hq
  show ?thesis
    by (simp add: newRenderer_def)
qed

text \<open>
  C8.  Every light function first asks the registry for the program of the names
  \<^verbatim>\<open>lightVert\<close> and \<^verbatim>\<open>lightTextureFrag\<close>; the three functions ask for the same pair of
  names.  If the registry throws, the function makes no GL call and leaves the renderer
  as it was.  If the registry returns a program, the first GL call of the function,
  whether it goes on to return or to throw, makes that program the program in use;
  every later GL call of the function reads or writes a uniform of that program, and the
  program is still in use at the end.
\<close>

theorem lighting_program_used_first:
  "(\<forall>e. getShader ''lightVert'' ''lightTextureFrag'' = Inl e \<longrightarrow>
      registerLight t getShader color r arguments = Inl (e, r)) \<and>
   (\<forall>p. getShader ''lightVert'' ''lightTextureFrag'' = Inr p \<longrightarrow>
      (\<exists>rest. callLog (GL (outcome (registerLight t getShader color r arguments))) =
         callLog (GL r) @ UseProgram p # rest \<and>
         rest \<noteq> [] \<and>
         list_all (uniformCallOf p) rest \<and>
         currentProgram (GL (outcome (registerLight t getShader color r arguments))) = Some p))"
proof (intro conjI allI impI)
  fix e
  assume "getShader ''lightVert'' ''lightTextureFrag'' = Inl e"
  then show "registerLight t getShader color r arguments = Inl (e, r)"
    by (rule registerLight_shader_throws)
next
  fix p
  assume gs: "getShader ''lightVert'' ''lightTextureFrag'' = Inr p"
  then show "\<exists>rest. callLog (GL (outcome (registerLight t getShader color r arguments))) =
         callLog (GL r) @ UseProgram p # rest \<and>
         rest \<noteq> [] \<and>
         list_all (uniformCallOf p) rest \<and>
         currentProgram (GL (outcome (registerLight t getShader color r arguments))) = Some p"
    by (rule registerLight_callLog)
qed

theorem lighting_program_used_first_witness:
  "noProgram ''lightVert'' ''lightTextureFrag'' = Inl TypeError \<and>
   ambientLight noProgram sampleColor newRenderer [JNum 150] = Inl (TypeError, newRenderer) \<and>
   namedProgram ''lightVert'' ''lightTextureFrag'' = Inr (''lightVert'', ''lightTextureFrag'') \<and>
   hd (callLog (GL (outcome (ambientLight namedProgram sampleColor newRenderer [JNum 150])))) =
     UseProgram (''lightVert'', ''lightTextureFrag'') \<and>
   tl (callLog (GL (outcome (ambientLight namedProgram sampleColor newRenderer [JNum 150])))) \<noteq> [] \<and>
   list_all (uniformCallOf (''lightVert'', ''lightTextureFrag''))
     (tl (callLog (GL (outcome (ambientLight namedProgram sampleColor newRenderer [JNum 150]))))) \<and>
   currentProgram (GL (outcome (ambientLight namedProgram sampleColor newRenderer [JNum 150]))) =
     Some (''lightVert'', ''lightTextureFrag'') \<and>
   hd (callLog (GL (outcome (directionalLight namedProgram sampleColor newRenderer
                               [JNum 10, JNum 20, JNum 30, JNull])))) =
     UseProgram (''lightVert'', ''lightTextureFrag'') \<and>
   list_all (uniformCallOf (''lightVert'', ''lightTextureFrag''))
     (tl (callLog (GL (outcome (directionalLight namedProgram sampleColor newRenderer
                               [JNum 10, JNum 20, JNum 30, JNull]))))) \<and>
   hd (callLog (GL (outcome (pointLight namedProgram strictColor newRenderer
                               [JArr [], JNum 0, JNum 0, JNum 0])))) =
     UseProgram (''lightVert'', ''lightTextureFrag'') \<and>
   list_all (uniformCallOf (''lightVert'', ''lightTextureFrag''))
     (tl (callLog (GL (outcome (pointLight namedProgram strictColor newRenderer
                               [JArr [], JNum 0, JNum 0, JNum 0])))))"
proof -
  let ?p = "(''lightVert'', ''lightTextureFrag'')"
  have np: "noProgram ''lightVert'' ''lightTextureFrag'' = Inl TypeError"
    by (simp add: noProgram_def)
  have hp: "namedProgram ''lightVert'' ''lightTextureFrag'' = Inr ?p"
    by (simp add: namedProgram_def)
  have l: "callLog (GL newRenderer) = []" by (simp add: newRenderer_def)
  have n: "ambientLight noProgram sampleColor newRenderer [JNum 150] = Inl (TypeError, newRenderer)"
    using lighting_program_used_first[where t = Ambient and getShader = noProgram
        and color = sampleColor and r = newRenderer and arguments = "[JNum 150]",
        THEN conjunct1, rule_format, OF np]
    by simp
  from lighting_program_used_first[where t = Ambient and getShader = namedProgram
        and color = sampleColor and r = newRenderer and arguments = "[JNum 150]",
        THEN conjunct2, rule_format, OF hp]
  have A: "hd (callLog (GL (outcome (ambientLight namedProgram sampleColor newRenderer [JNum 150])))) =
       UseProgram ?p \<and>
     tl (callLog (GL (outcome (ambientLight namedProgram sampleColor newRenderer [JNum 150])))) \<noteq> [] \<and>
     list_all (uniformCallOf ?p)
       (tl (callLog (GL (outcome (ambientLight namedProgram sampleColor newRenderer [JNum 150]))))) \<and>
     currentProgram (GL (outcome (ambientLight namedProgram sampleColor newRenderer [JNum 150]))) =
       Some ?p"
    unfolding l by auto
  from lighting_program_used_first[where t = Directional and getShader = namedProgram
        and color = sampleColor and r = newRenderer and arguments = "[JNum 10, JNum 20, JNum 30, JNull]",
        THEN conjunct2, rule_format, OF hp]
  have D: "hd (callLog (GL (outcome (directionalLight namedProgram sampleColor newRenderer
                               [JNum 10, JNum 20, JNum 30, JNull])))) = UseProgram ?p \<and>
     list_all (uniformCallOf ?p)
       (tl (callLog (GL (outcome (directionalLight namedProgram sampleColor newRenderer
                               [JNum 10, JNum 20, JNum 30, JNull])))))"
    unfolding l by auto
  from lighting_program_used_first[where t = Point and getShader = namedProgram
        and color = strictColor and r = newRenderer and arguments = "[JArr [], JNum 0, JNum 0, JNum 0]",
        THEN conjunct2, rule_format, OF hp]
  have P: "hd (callLog (GL (outcome (pointLight namedProgram strictColor newRenderer
                               [JArr [], JNum 0, JNum 0, JNum 0])))) = UseProgram ?p \<and>
     list_all (uniformCallOf ?p)
       (tl (callLog (GL (outcome (pointLight namedProgram strictColor newRenderer
                               [JArr [], JNum 0, JNum 0, JNum 0])))))"
    unfolding l by auto
  show ?thesis using np n hp A D P by (elim conjE) (intro conjI; assumption)
qed

section \<open>What the image functions do\<close>

lemma typedSet_length [simp]: "length (typedSet xs i v) = length xs"
  by (simp add: typedSet_def)







lemma blankCanvas_fields [simp]:
  "width (blankCanvas w h) = w" "height (blankCanvas w h) = h"
  "pixelData (blankCanvas w h) = replicate (4 * w * h) 0"
  by (simp_all add: blankCanvas_def)

lemma new_canvas_sized:
  "setCanvasHeight (length doc) h (setCanvasWidth (length doc) w (snd (createCanvasElement doc))) =
     doc @ [blankCanvas w h]"
  "fst (createCanvasElement doc) = length doc"
  by (simp_all add: createCanvasElement_def setCanvasWidth_def setCanvasHeight_def)




lemma strictEqualsString_iff: "strictEqualsString m c \<longleftrightarrow> m = JStr c"
  by (cases m) auto



section \<open>The claims about the image functions\<close>

text \<open>
  C9.  \<^verbatim>\<open>imageMode(m)\<close> stores \<^verbatim>\<open>m\<close> as the image mode, and changes nothing else, when
  \<^verbatim>\<open>m\<close> is one of the constants CORNER, CORNERS and CENTER; for every other argument the
  sketch, and with it the stored image mode, is what it was.  The function has no error
  result: it returns for every argument.
\<close>

theorem imageMode_accepts_constants_only:
  "(m = JStr (CORNER K) \<or> m = JStr (CORNERS K) \<or> m = JStr (CENTER K) \<longrightarrow>
      imageMode K this m = this\<lparr>u_imageMode := m\<rparr>) \<and>
   (m \<noteq> JStr (CORNER K) \<and> m \<noteq> JStr (CORNERS K) \<and> m \<noteq> JStr (CENTER K) \<longrightarrow>
      imageMode K this m = this)"
  by (auto simp: imageMode_def strictEqualsString_iff)

theorem imageMode_accepts_constants_only_witness:
  "JStr ''center'' = JStr (CENTER sampleConstants) \<and>
   u_imageMode (imageMode sampleConstants sampleSketch (JStr ''center'')) = JStr ''center'' \<and>
   JStr ''middle'' \<noteq> JStr (CORNER sampleConstants) \<and>
   JStr ''middle'' \<noteq> JStr (CORNERS sampleConstants) \<and>
   JStr ''middle'' \<noteq> JStr (CENTER sampleConstants) \<and>
   imageMode sampleConstants sampleSketch (JStr ''middle'') = sampleSketch \<and>
   u_imageMode (imageMode sampleConstants sampleSketch (JNum 3)) = JStr ''corner''"
proof -
  note T = imageMode_accepts_constants_only[of _ sampleConstants sampleSketch]
  have a: "JStr ''center'' = JStr (CORNER sampleConstants) \<or> JStr ''center'' = JStr (CORNERS sampleConstants) \<or>
           JStr ''center'' = JStr (CENTER sampleConstants)"
    by (simp add: sampleConstants_def)
  have b: "JStr ''middle'' \<noteq> JStr (CORNER sampleConstants) \<and> JStr ''middle'' \<noteq> JStr (CORNERS sampleConstants) \<and>
           JStr ''middle'' \<noteq> JStr (CENTER sampleConstants)"
    by (simp add: sampleConstants_def)
  have c: "JNum 3 \<noteq> JStr (CORNER sampleConstants) \<and> JNum 3 \<noteq> JStr (CORNERS sampleConstants) \<and>
           JNum 3 \<noteq> JStr (CENTER sampleConstants)"
    by simp
  from T[of "JStr ''center''", THEN conjunct1, rule_format, OF a]
       T[of "JStr ''middle''", THEN conjunct2, rule_format, OF b]
       T[of "JNum 3", THEN conjunct2, rule_format, OF c] b
  show ?thesis by (simp add: sampleConstants_def sampleSketch_def)
qed



end
